theory Spec2Isabelle
  imports Complex_Main
begin

section \<open>Values\<close>

text \<open>
  The handler of \<^verbatim>\<open>src/api/handle.js\<close> works on values produced by
  \<^verbatim>\<open>JSON.parse\<close> and hands values to \<^verbatim>\<open>JSON.stringify\<close>.
  A JSON value is modelled as a tree; an object is the list of its own properties in
  property order. A string is a list of 8-bit characters, each standing for one code unit
  of the JavaScript string.
\<close>

datatype jsonv =
    JNull
  | JBool bool
  | JNum rat
  | JStr string
  | JArr "jsonv list"
  | JObj "(string \<times> jsonv) list"

text \<open>
  What reading a property of a parsed JSON value can give: \<^verbatim>\<open>undefined\<close>, a
  function inherited from a prototype, or a JSON value.
\<close>

datatype jsval = Undefined | Func | Val jsonv

text \<open>A thrown value: its \<^verbatim>\<open>message\<close> (empty when it has none) and its \<^verbatim>\<open>stack\<close>.\<close>

datatype exn = Exn (message: string) (stack: "string option")

text \<open>JavaScript truthiness, as used by \<^verbatim>\<open>!x\<close>, \<^verbatim>\<open>x || y\<close> and \<^verbatim>\<open>if (x)\<close>.\<close>

fun truthy :: "jsonv \<Rightarrow> bool" where
  "truthy JNull = False"
| "truthy (JBool b) = b"
| "truthy (JNum n) = (n \<noteq> 0)"
| "truthy (JStr s) = (s \<noteq> [])"
| "truthy (JArr xs) = True"
| "truthy (JObj kvs) = True"

fun truthy_val :: "jsval \<Rightarrow> bool" where
  "truthy_val Undefined = False"
| "truthy_val Func = True"
| "truthy_val (Val v) = truthy v"

section \<open>The collaborators\<close>

text \<open>What \<^verbatim>\<open>put\<close> is given as content: the request's body stream, a byte array, or
  the text \<^verbatim>\<open>JSON.stringify\<close> makes of a value.\<close>

datatype content = Stream string | Bytes "nat list" | JsonText jsonv

record put_opts =
  access :: string
  contentType :: "string option"
  addRandomSuffix :: "bool option"

text \<open>
  The fields the handler reads of a stored object; \<open>None\<close> is a property the object
  does not have. The object \<^verbatim>\<open>put\<close> resolves to may come without the property
  \<^verbatim>\<open>size\<close> (\<open>size_put\<close>), as it may come without
  \<^verbatim>\<open>downloadUrl\<close>; an entry of the array \<^verbatim>\<open>list\<close> resolves to has
  \<^verbatim>\<open>size\<close> (\<open>size_b\<close>) and \<^verbatim>\<open>uploadedAt\<close>.
\<close>

record blob =
  url :: string
  downloadUrl :: "string option"
  pathname :: string

record put_result = blob +
  size_put :: "nat option"

record listed = blob +
  size_b :: nat
  uploadedAt :: string

text \<open>The calls the handler makes on the store and the network, in the order it starts them.\<close>

datatype call =
    Put string content put_opts
  | List string "int option"
  | Del string
  | Fetch string

text \<open>
  The object store (\<^verbatim>\<open>put\<close>, \<^verbatim>\<open>list\<close>, \<^verbatim>\<open>del\<close> of the imported
  package), the network fetch, the clock, the process environment and the platform functions
  \<^verbatim>\<open>atob\<close>, \<^verbatim>\<open>parseInt\<close> and \<^verbatim>\<open>toISOString\<close> are outside the
  repository: they are parameters of the model. A call that rejects or throws is \<open>Inl\<close>
  of the thrown value.
  \<^item> \<open>Date_now e k\<close> is the clock at the \<open>k\<close>-th reading of one request, counted
    from 0 (\<^verbatim>\<open>Date.now()\<close> and \<^verbatim>\<open>new Date()\<close> both read it);
  \<^item> \<open>fetch_json e u\<close> is \<^verbatim>\<open>fetch(u)\<close> followed by \<^verbatim>\<open>response.json()\<close>;
  \<^item> \<open>parseInt e s\<close> is \<open>None\<close> for \<^verbatim>\<open>NaN\<close>;
  \<^item> \<open>type_error e p\<close> is the \<^verbatim>\<open>TypeError\<close> the engine throws at the
    property access or call \<open>p\<close>.
\<close>

record env =
  NODE_ENV :: "string option"
  Date_now :: "nat \<Rightarrow> nat"
  toISOString :: "nat \<Rightarrow> string"
  atob :: "string \<Rightarrow> exn + string"
  parseInt :: "string \<Rightarrow> int option"
  type_error :: "string \<Rightarrow> exn"
  put :: "string \<Rightarrow> content \<Rightarrow> put_opts \<Rightarrow> exn + put_result"
  list_blobs :: "string \<Rightarrow> int option \<Rightarrow> exn + listed list"
  del :: "string \<Rightarrow> exn + unit"
  fetch_json :: "string \<Rightarrow> exn + jsonv"

text \<open>
  A request: its method, the query parameters of its URL in order, its body stream, and
  what \<^verbatim>\<open>await request.json()\<close> gives (the parsed body, or the thrown error).
  The URL of the request is taken to be one that \<^verbatim>\<open>new URL\<close> accepts: that
  call stands before the \<^verbatim>\<open>try\<close>, and a request it rejects gets no response.
\<close>

record request =
  "method" :: string
  searchParams :: "(string \<times> string) list"
  body :: string
  json :: "exn + jsonv"

text \<open>A response: \<open>resp_body\<close> is the value whose JSON text is the body, \<open>None\<close> for
  the \<^verbatim>\<open>null\<close> body.\<close>

record response =
  status :: nat
  headers :: "(string \<times> string) list"
  resp_body :: "jsonv option"

section \<open>Helpers of the platform\<close>

text \<open>\<^verbatim>\<open>searchParams.get(k)\<close>: the first value of the key, \<^verbatim>\<open>null\<close> when absent.\<close>

definition get_param :: "request \<Rightarrow> string \<Rightarrow> string option" where
  "get_param request k = map_of (searchParams request) k"

text \<open>\<^verbatim>\<open>searchParams.get(k) || d\<close>: the empty string is falsy as \<^verbatim>\<open>null\<close> is.\<close>

definition param_or :: "request \<Rightarrow> string \<Rightarrow> string \<Rightarrow> string" where
  "param_or request k d =
     (case get_param request k of
        None \<Rightarrow> d
      | Some v \<Rightarrow> if v = [] then d else v)"

text \<open>
  Reading one of the properties \<^verbatim>\<open>name\<close>, \<^verbatim>\<open>values\<close>, \<^verbatim>\<open>image\<close>,
  \<^verbatim>\<open>metadata\<close> (the only ones the handler reads) of a parsed JSON value: it throws on
  \<^verbatim>\<open>null\<close>, gives the own property of an object, and on an array finds the
  prototype's function \<^verbatim>\<open>values\<close>.
\<close>

fun get_prop :: "env \<Rightarrow> jsonv \<Rightarrow> string \<Rightarrow> exn + jsval" where
  "get_prop e JNull k = Inl (type_error e k)"
| "get_prop e (JObj kvs) k = Inr (case map_of kvs k of None \<Rightarrow> Undefined | Some v \<Rightarrow> Val v)"
| "get_prop e (JArr xs) k = Inr (if k = ''values'' then Func else Undefined)"
| "get_prop e v k = Inr Undefined"

text \<open>A property of an object literal as \<^verbatim>\<open>JSON.stringify\<close> writes it: a property whose
  value is \<^verbatim>\<open>undefined\<close> or a function is left out.\<close>

fun field :: "string \<Rightarrow> jsval \<Rightarrow> (string \<times> jsonv) list" where
  "field k (Val v) = [(k, v)]"
| "field k Undefined = []"
| "field k Func = []"

definition opt_str :: "string option \<Rightarrow> jsval" where
  "opt_str s = (case s of None \<Rightarrow> Undefined | Some x \<Rightarrow> Val (JStr x))"

definition opt_num :: "nat option \<Rightarrow> jsval" where
  "opt_num n = (case n of None \<Rightarrow> Undefined | Some x \<Rightarrow> Val (JNum (of_nat x)))"

text \<open>A non-negative integer in a template literal: its decimal digits.\<close>

definition digit_char :: "nat \<Rightarrow> char" where
  "digit_char d = ''0123456789'' ! (d mod 10)"

function decimal :: "nat \<Rightarrow> string" where
  "decimal n = (if n < 10 then [digit_char n] else decimal (n div 10) @ [digit_char (n mod 10)])"
  by pat_completeness auto
termination
  by (relation "measure id") auto

text \<open>\<^verbatim>\<open>s.split(c)\<close> for a one-character separator, and \<^verbatim>\<open>pop()\<close>.\<close>

fun split_str :: "char \<Rightarrow> string \<Rightarrow> string list" where
  "split_str c [] = [[]]"
| "split_str c (x # xs) =
     (if x = c then [] # split_str c xs
      else (case split_str c xs of
              [] \<Rightarrow> [[x]]
            | y # ys \<Rightarrow> (x # y) # ys))"

definition pop :: "'a list \<Rightarrow> 'a option" where
  "pop xs = (if xs = [] then None else Some (last xs))"

text \<open>
  Object spread \<^verbatim>\<open>{...v}\<close> of a JSON value: the own properties of an object, the
  indexed elements of an array, the indexed characters of a string, nothing otherwise.
  \<open>assign\<close> is a later property of the same literal: it overwrites in place or is appended.
\<close>

fun spread :: "jsonv \<Rightarrow> (string \<times> jsonv) list" where
  "spread (JObj kvs) = kvs"
| "spread (JArr xs) = zip (map decimal [0..<length xs]) xs"
| "spread (JStr s) = zip (map decimal [0..<length s]) (map (\<lambda>c. JStr [c]) s)"
| "spread v = []"

fun assign :: "(string \<times> jsonv) list \<Rightarrow> string \<Rightarrow> jsonv \<Rightarrow> (string \<times> jsonv) list" where
  "assign [] k v = [(k, v)]"
| "assign ((k', v') # kvs) k v = (if k' = k then (k, v) # kvs else (k', v') # assign kvs k v)"

section \<open>The regular expressions\<close>

definition is_lower :: "char \<Rightarrow> bool" where
  "is_lower c = (c \<in> set ''abcdefghijklmnopqrstuvwxyz'')"

definition is_upper :: "char \<Rightarrow> bool" where
  "is_upper c = (c \<in> set ''ABCDEFGHIJKLMNOPQRSTUVWXYZ'')"

definition is_digit :: "char \<Rightarrow> bool" where
  "is_digit c = (c \<in> set ''0123456789'')"

text \<open>The class \<^verbatim>\<open>[a-zA-Z0-9-_]\<close> of the filter name's sanitiser.\<close>

definition is_safe :: "char \<Rightarrow> bool" where
  "is_safe c = (is_lower c \<or> is_upper c \<or> is_digit c \<or> c = CHR ''-'' \<or> c = CHR ''_'')"

text \<open>\<^verbatim>\<open>name.replace(/[^a-zA-Z0-9-_]/g, '_')\<close>\<close>

definition safeName :: "string \<Rightarrow> string" where
  "safeName name = map (\<lambda>c. if is_safe c then c else CHR ''_'') name"

text \<open>The class \<^verbatim>\<open>\w\<close>, and the characters \<^verbatim>\<open>.\<close> does not match.\<close>

definition is_word :: "char \<Rightarrow> bool" where
  "is_word c = (is_lower c \<or> is_upper c \<or> is_digit c \<or> c = CHR ''_'')"

definition is_line_terminator :: "char \<Rightarrow> bool" where
  "is_line_terminator c = (c = CHR 0x0A \<or> c = CHR 0x0D)"

fun strip_prefix :: "string \<Rightarrow> string \<Rightarrow> string option" where
  "strip_prefix [] s = Some s"
| "strip_prefix (p # ps) [] = None"
| "strip_prefix (p # ps) (c # cs) = (if p = c then strip_prefix ps cs else None)"

text \<open>
  \<^verbatim>\<open>image.match(/^data:image\/\w+;base64,(.+)$/)\<close>: the captured group, \<open>None\<close>
  for \<^verbatim>\<open>null\<close>. The greedy \<^verbatim>\<open>\w+\<close> takes the longest run of word
  characters; giving one back cannot help, since \<^verbatim>\<open>;\<close> is not a word character.
\<close>

definition match_data_url :: "string \<Rightarrow> string option" where
  "match_data_url img =
     (case strip_prefix ''data:image/'' img of
        None \<Rightarrow> None
      | Some r \<Rightarrow>
          if takeWhile is_word r = [] then None
          else (case strip_prefix '';base64,'' (dropWhile is_word r) of
                  None \<Rightarrow> None
                | Some p \<Rightarrow>
                    if p \<noteq> [] \<and> list_all (\<lambda>c. \<not> is_line_terminator c) p then Some p
                    else None))"

text \<open>The loop that copies the decoded string into a \<^verbatim>\<open>Uint8Array\<close>.\<close>

function fill_bytes :: "string \<Rightarrow> nat \<Rightarrow> nat list \<Rightarrow> nat list" where
  "fill_bytes binaryString i bytes =
     (if i < length binaryString
      then fill_bytes binaryString (i + 1) (bytes[i := of_char (binaryString ! i)])
      else bytes)"
  by pat_completeness auto
termination
  by (relation "measure (\<lambda>(s, i, bytes). length s - i)") auto

definition to_bytes :: "string \<Rightarrow> nat list" where
  "to_bytes binaryString = fill_bytes binaryString 0 (replicate (length binaryString) 0)"

section \<open>The handler\<close>

definition corsHeaders :: "(string \<times> string) list" where
  "corsHeaders =
     [(''Access-Control-Allow-Origin'', ''*''),
      (''Access-Control-Allow-Methods'', ''GET, POST, DELETE, OPTIONS''),
      (''Access-Control-Allow-Headers'', ''Content-Type''),
      (''Content-Type'', ''application/json'')]"

definition jsonResponse :: "jsonv \<Rightarrow> nat \<Rightarrow> (string \<times> string) list \<Rightarrow> response" where
  "jsonResponse data st hs = \<lparr>status = st, headers = hs, resp_body = Some data\<rparr>"

definition method_not_allowed :: response where
  "method_not_allowed =
     jsonResponse (JObj [(''success'', JBool False), (''error'', JStr ''Method not allowed'')])
       405 corsHeaders"

definition availableActions :: "string list" where
  "availableActions =
     [''upload'', ''cc'', ''save-enhanced'', ''list-uploads'', ''delete-upload'',
      ''get-metadata'', ''health'']"

subsection \<open>Route 1: upload\<close>

definition route_upload :: "env \<Rightarrow> request \<Rightarrow> (exn + response) \<times> call list" where
  "route_upload e request =
     (if method request \<noteq> ''POST'' then (Inr method_not_allowed, [])
      else
        let given = param_or request ''filename'' [];
            filename = (if given = [] then ''upload_'' @ decimal (Date_now e 0) @ ''.jpg''
                        else given);
            k = (if given = [] then 1 else 0);
            opts = \<lparr>access = ''public'', contentType = None, addRandomSuffix = Some True\<rparr>;
            c = Put (''uploads/'' @ filename) (Stream (body request)) opts
        in (case put e (''uploads/'' @ filename) (Stream (body request)) opts of
              Inl err \<Rightarrow> (Inl err, [c])
            | Inr b \<Rightarrow>
                (Inr (jsonResponse
                   (JObj ([(''success'', JBool True), (''url'', JStr (url b))]
                      @ field ''downloadUrl'' (opt_str (downloadUrl b))
                      @ field ''size'' (opt_num (size_put b))
                      @ [(''uploadedAt'', JStr (toISOString e (Date_now e k)))]))
                   200 corsHeaders), [c])))"

subsection \<open>Route 2: cc\<close>

text \<open>The callback mapped over the listed blobs: \<open>None\<close> is the \<^verbatim>\<open>null\<close> of its
  \<^verbatim>\<open>catch\<close>.\<close>

definition cc_item :: "env \<Rightarrow> listed \<Rightarrow> jsonv option" where
  "cc_item e b =
     (case fetch_json e (url b) of
        Inl err \<Rightarrow> None
      | Inr data \<Rightarrow>
          (case get_prop e data ''name'' of
             Inl err \<Rightarrow> None
           | Inr n \<Rightarrow>
               (case get_prop e data ''values'' of
                  Inl err \<Rightarrow> None
                | Inr v \<Rightarrow>
                    Some (JObj
                      (field ''name''
                         (if truthy_val n then n
                          else opt_str (pop (split_str (CHR ''/'') (pathname b))))
                       @ [(''url'', JStr (url b)),
                          (''uploadedAt'', JStr (uploadedAt b)),
                          (''size'', JNum (of_nat (size_b b)))]
                       @ field ''values'' (if truthy_val v then v else Val data))))))"

definition cc_get :: "env \<Rightarrow> (exn + response) \<times> call list" where
  "cc_get e =
     (case list_blobs e ''cc-filters/'' (Some 100) of
        Inl err \<Rightarrow> (Inl err, [List ''cc-filters/'' (Some 100)])
      | Inr blobs \<Rightarrow>
          let filters = map (cc_item e) blobs
          in (Inr (jsonResponse
                (JObj [(''success'', JBool True),
                       (''filters'', JArr (map the (filter (\<lambda>f. f \<noteq> None) filters))),
                       (''count'', JNum (of_nat (length (filter (\<lambda>f. f \<noteq> None) filters))))])
                200 corsHeaders),
              List ''cc-filters/'' (Some 100) # map (\<lambda>b. Fetch (url b)) blobs))"

definition missing_name_or_values :: response where
  "missing_name_or_values =
     jsonResponse (JObj [(''success'', JBool False), (''error'', JStr ''Missing name or values'')])
       400 corsHeaders"

definition cc_post :: "env \<Rightarrow> request \<Rightarrow> (exn + response) \<times> call list" where
  "cc_post e request =
     (case json request of
        Inl err \<Rightarrow> (Inl err, [])
      | Inr ccData \<Rightarrow>
          (case get_prop e ccData ''name'' of
             Inl err \<Rightarrow> (Inl err, [])
           | Inr n \<Rightarrow>
               if \<not> truthy_val n then (Inr missing_name_or_values, [])
               else
                 (case get_prop e ccData ''values'' of
                    Inl err \<Rightarrow> (Inl err, [])
                  | Inr v \<Rightarrow>
                      if \<not> truthy_val v then (Inr missing_name_or_values, [])
                      else
                        (case n of
                           Val (JStr s) \<Rightarrow>
                             let filename = ''cc-filters/'' @ safeName s @ ''_''
                                              @ decimal (Date_now e 0) @ ''.json'';
                                 opts = \<lparr>access = ''public'',
                                         contentType = Some ''application/json'',
                                         addRandomSuffix = None\<rparr>;
                                 c = Put filename (JsonText ccData) opts
                             in (case put e filename (JsonText ccData) opts of
                                   Inl err \<Rightarrow> (Inl err, [c])
                                 | Inr b \<Rightarrow>
                                     (Inr (jsonResponse
                                        (JObj [(''success'', JBool True),
                                               (''url'', JStr (url b)),
                                               (''name'', JStr s),
                                               (''uploadedAt'',
                                                  JStr (toISOString e (Date_now e 1)))])
                                        200 corsHeaders), [c]))
                         | _ \<Rightarrow> (Inl (type_error e ''replace''), [])))))"

definition url_required :: response where
  "url_required =
     jsonResponse (JObj [(''success'', JBool False), (''error'', JStr ''URL parameter required'')])
       400 corsHeaders"

text \<open>
  The \<^verbatim>\<open>DELETE\<close> branch of \<^verbatim>\<open>cc\<close> and the body of
  \<^verbatim>\<open>delete-upload\<close> are the same statements and differ in the message of the
  success response only, here the parameter \<open>msg\<close>.
\<close>

definition delete_by_url :: "env \<Rightarrow> request \<Rightarrow> string \<Rightarrow> (exn + response) \<times> call list" where
  "delete_by_url e request msg =
     (let deleteUrl = param_or request ''url'' []
      in if deleteUrl = [] then (Inr url_required, [])
         else (case del e deleteUrl of
                 Inl err \<Rightarrow> (Inl err, [Del deleteUrl])
               | Inr u \<Rightarrow>
                   (Inr (jsonResponse
                      (JObj [(''success'', JBool True), (''message'', JStr msg)])
                      200 corsHeaders), [Del deleteUrl])))"

text \<open>The block of the action \<^verbatim>\<open>cc\<close>: \<open>Inr None\<close> when none of its three method
  tests holds and control leaves the block without a \<^verbatim>\<open>return\<close>.\<close>

definition route_cc :: "env \<Rightarrow> request \<Rightarrow> (exn + response option) \<times> call list" where
  "route_cc e request =
     (if method request = ''GET'' then map_prod (map_sum id Some) id (cc_get e)
      else if method request = ''POST'' then map_prod (map_sum id Some) id (cc_post e request)
      else if method request = ''DELETE''
        then map_prod (map_sum id Some) id
               (delete_by_url e request ''CC filter deleted successfully'')
      else (Inr None, []))"

subsection \<open>Route 3: save-enhanced\<close>

definition route_save_enhanced :: "env \<Rightarrow> request \<Rightarrow> (exn + response) \<times> call list" where
  "route_save_enhanced e request =
     (if method request \<noteq> ''POST'' then (Inr method_not_allowed, [])
      else
        (case json request of
           Inl err \<Rightarrow> (Inl err, [])
         | Inr parsed \<Rightarrow>
             (case get_prop e parsed ''image'' of
                Inl err \<Rightarrow> (Inl err, [])
              | Inr img \<Rightarrow>
                  (case get_prop e parsed ''metadata'' of
                     Inl err \<Rightarrow> (Inl err, [])
                   | Inr metadata \<Rightarrow>
                       if \<not> truthy_val img then
                         (Inr (jsonResponse
                            (JObj [(''success'', JBool False),
                                   (''error'', JStr ''No image provided'')])
                            400 corsHeaders), [])
                       else
                         (case img of
                            Val (JStr s) \<Rightarrow>
                              (case match_data_url s of
                                 None \<Rightarrow>
                                   (Inr (jsonResponse
                                      (JObj [(''success'', JBool False),
                                             (''error'', JStr ''Invalid image format'')])
                                      400 corsHeaders), [])
                               | Some base64Data \<Rightarrow>
                                   (case atob e base64Data of
                                      Inl err \<Rightarrow> (Inl err, [])
                                    | Inr binaryString \<Rightarrow>
                                        let bytes = to_bytes binaryString;
                                            filename = ''enhanced/enhanced_''
                                              @ decimal (Date_now e 0) @ ''.jpg'';
                                            opts = \<lparr>access = ''public'',
                                                    contentType = Some ''image/jpeg'',
                                                    addRandomSuffix = None\<rparr>;
                                            c1 = Put filename (Bytes bytes) opts
                                        in (case put e filename (Bytes bytes) opts of
                                              Inl err \<Rightarrow> (Inl err, [c1])
                                            | Inr b \<Rightarrow>
                                                let ok = jsonResponse
                                                      (JObj ([(''success'', JBool True),
                                                              (''url'', JStr (url b))]
                                                         @ field ''downloadUrl''
                                                             (opt_str (downloadUrl b))
                                                         @ field ''size''
                                                             (opt_num (size_put b))))
                                                      200 corsHeaders
                                                in (case metadata of
                                                      Val m \<Rightarrow>
                                                        if truthy m then
                                                          let metadataFilename = ''metadata/meta_''
                                                                @ decimal (Date_now e 1) @ ''.json'';
                                                              doc = JsonText (JObj
                                                                (assign
                                                                   (assign (spread m) ''imageUrl''
                                                                      (JStr (url b)))
                                                                   ''timestamp''
                                                                   (JStr (toISOString e
                                                                      (Date_now e 2)))));
                                                              mopts = \<lparr>access = ''public'',
                                                                contentType =
                                                                  Some ''application/json'',
                                                                addRandomSuffix = None\<rparr>;
                                                              c2 = Put metadataFilename doc mopts
                                                          in (case put e metadataFilename doc mopts of
                                                                Inl err \<Rightarrow> (Inl err, [c1, c2])
                                                              | Inr mb \<Rightarrow> (Inr ok, [c1, c2]))
                                                        else (Inr ok, [c1])
                                                    | _ \<Rightarrow> (Inr ok, [c1])))))
                          | _ \<Rightarrow> (Inl (type_error e ''match''), []))))))"

subsection \<open>Routes 4 to 6: list-uploads, delete-upload, get-metadata\<close>

definition upload_entry :: "listed \<Rightarrow> jsonv" where
  "upload_entry b =
     JObj ([(''url'', JStr (url b))]
       @ field ''downloadUrl'' (opt_str (downloadUrl b))
       @ [(''pathname'', JStr (pathname b)),
          (''size'', JNum (of_nat (size_b b))),
          (''uploadedAt'', JStr (uploadedAt b))])"

definition route_list_uploads :: "env \<Rightarrow> request \<Rightarrow> (exn + response) \<times> call list" where
  "route_list_uploads e request =
     (if method request \<noteq> ''GET'' then (Inr method_not_allowed, [])
      else
        let prefix = param_or request ''prefix'' ''uploads/'';
            limit = parseInt e (param_or request ''limit'' ''50'')
        in (case list_blobs e prefix limit of
              Inl err \<Rightarrow> (Inl err, [List prefix limit])
            | Inr blobs \<Rightarrow>
                (Inr (jsonResponse
                   (JObj [(''success'', JBool True),
                          (''uploads'', JArr (map upload_entry blobs)),
                          (''count'', JNum (of_nat (length blobs)))])
                   200 corsHeaders), [List prefix limit])))"

definition route_delete_upload :: "env \<Rightarrow> request \<Rightarrow> (exn + response) \<times> call list" where
  "route_delete_upload e request =
     (if method request \<noteq> ''DELETE'' then (Inr method_not_allowed, [])
      else delete_by_url e request ''Upload deleted successfully'')"

definition metadata_item :: "env \<Rightarrow> listed \<Rightarrow> jsonv option" where
  "metadata_item e b =
     (case fetch_json e (url b) of
        Inl err \<Rightarrow> None
      | Inr data \<Rightarrow>
          Some (JObj (assign (assign (spread data) ''metadataUrl'' (JStr (url b)))
                        ''uploadedAt'' (JStr (uploadedAt b)))))"

definition route_get_metadata :: "env \<Rightarrow> request \<Rightarrow> (exn + response) \<times> call list" where
  "route_get_metadata e request =
     (if method request \<noteq> ''GET'' then (Inr method_not_allowed, [])
      else
        (case list_blobs e ''metadata/'' (Some 100) of
           Inl err \<Rightarrow> (Inl err, [List ''metadata/'' (Some 100)])
         | Inr blobs \<Rightarrow>
             let metadata = map (metadata_item e) blobs
             in (Inr (jsonResponse
                   (JObj [(''success'', JBool True),
                          (''metadata'', JArr (map the (filter (\<lambda>m. m \<noteq> None) metadata))),
                          (''count'',
                             JNum (of_nat (length (filter (\<lambda>m. m \<noteq> None) metadata))))])
                   200 corsHeaders),
                 List ''metadata/'' (Some 100) # map (\<lambda>b. Fetch (url b)) blobs)))"

subsection \<open>Route 7, the fallback, and the router\<close>

definition route_health :: "env \<Rightarrow> response" where
  "route_health e =
     jsonResponse
       (JObj [(''success'', JBool True),
              (''status'', JStr ''healthy''),
              (''timestamp'', JStr (toISOString e (Date_now e 0))),
              (''availableActions'', JArr (map JStr availableActions))])
       200 corsHeaders"

definition route_not_found :: response where
  "route_not_found =
     jsonResponse
       (JObj [(''success'', JBool False),
              (''error'', JStr ''Invalid action''),
              (''availableActions'', JArr (map JStr availableActions))])
       404 corsHeaders"

text \<open>What follows the block of \<^verbatim>\<open>cc\<close> inside the \<^verbatim>\<open>try\<close>.\<close>

definition after_cc :: "env \<Rightarrow> request \<Rightarrow> string \<Rightarrow> (exn + response) \<times> call list" where
  "after_cc e request action =
     (if action = ''save-enhanced'' then route_save_enhanced e request
      else if action = ''list-uploads'' then route_list_uploads e request
      else if action = ''delete-upload'' then route_delete_upload e request
      else if action = ''get-metadata'' then route_get_metadata e request
      else if action = ''health'' then (Inr (route_health e), [])
      else (Inr route_not_found, []))"

text \<open>The body of the \<^verbatim>\<open>try\<close>: \<open>Inl\<close> is an exception that reaches the
  \<^verbatim>\<open>catch\<close>.\<close>

definition try_block :: "env \<Rightarrow> request \<Rightarrow> string \<Rightarrow> (exn + response) \<times> call list" where
  "try_block e request action =
     (if action = ''upload'' then route_upload e request
      else
        (case (if action = ''cc'' then route_cc e request else (Inr None, [])) of
           (Inl err, cs) \<Rightarrow> (Inl err, cs)
         | (Inr (Some r), cs) \<Rightarrow> (Inr r, cs)
         | (Inr None, cs) \<Rightarrow>
             (case after_cc e request action of (res, cs') \<Rightarrow> (res, cs @ cs'))))"

text \<open>The response of the \<^verbatim>\<open>catch\<close> block (its \<^verbatim>\<open>console.error\<close>
  writes to the log only).\<close>

definition error_response :: "env \<Rightarrow> exn \<Rightarrow> response" where
  "error_response e error =
     jsonResponse
       (JObj ([(''success'', JBool False),
               (''error'', JStr (if message error \<noteq> [] then message error
                                 else ''Internal server error''))]
          @ field ''stack''
              (if NODE_ENV e = Some ''development'' then opt_str (stack error) else Undefined)))
       500 corsHeaders"

definition handler :: "env \<Rightarrow> request \<Rightarrow> response \<times> call list" where
  "handler e request =
     (let action = param_or request ''action'' ''unknown''
      in if method request = ''OPTIONS''
         then (\<lparr>status = 200, headers = corsHeaders, resp_body = None\<rparr>, [])
         else (case try_block e request action of
                 (Inr r, cs) \<Rightarrow> (r, cs)
               | (Inl error, cs) \<Rightarrow> (error_response e error, cs)))"

section \<open>A concrete environment and concrete requests\<close>

text \<open>
  The inputs at which the theorems below are instantiated: a store whose calls succeed, a
  listing of two filter documents of which only the first can be fetched, a fixed clock.
\<close>

definition example_blob :: "string \<Rightarrow> put_result" where
  "example_blob p =
     \<lparr>url = ''https://store.example/'' @ p,
      downloadUrl = Some (''https://store.example/'' @ p @ ''?download=1''),
      pathname = p,
      size_put = Some 3\<rparr>"

definition example_listed :: "string \<Rightarrow> listed" where
  "example_listed p =
     \<lparr>url = ''https://store.example/'' @ p,
      downloadUrl = None,
      pathname = p,
      size_b = 40,
      uploadedAt = ''2023-11-14T22:13:20.000Z''\<rparr>"

definition example_env :: env where
  "example_env =
     \<lparr>NODE_ENV = Some ''production'',
      Date_now = (\<lambda>k. 1700000000000 + k),
      toISOString = (\<lambda>t. ''2023-11-14T22:13:20.000Z''),
      atob = (\<lambda>s. if s = ''QUJD'' then Inr ''ABC''
                   else Inl (Exn ''The string to be decoded is not correctly encoded.'' None)),
      parseInt = (\<lambda>s. if s = ''50'' then Some 50 else None),
      type_error = (\<lambda>p. Exn (''TypeError: '' @ p) None),
      put = (\<lambda>p c opts. Inr (example_blob p)),
      list_blobs = (\<lambda>p l. Inr (if p = ''cc-filters/''
                               then [example_listed ''cc-filters/Warm_1.json'',
                                     example_listed ''cc-filters/Cold_2.json'']
                               else [])),
      del = (\<lambda>u. Inr ()),
      fetch_json = (\<lambda>u. if u = ''https://store.example/cc-filters/Warm_1.json''
                         then Inr (JObj [(''name'', JStr ''Warm''),
                                         (''values'', JObj [(''a'', JNum 1)])])
                         else Inl (Exn ''fetch failed'' None))\<rparr>"

definition example_request :: "string \<Rightarrow> string \<Rightarrow> exn + jsonv \<Rightarrow> request" where
  "example_request m a j = \<lparr>method = m, searchParams = [(''action'', a)], body = [], json = j\<rparr>"

definition request_without_action :: request where
  "request_without_action = \<lparr>method = ''GET'', searchParams = [], body = [], json = Inr JNull\<rparr>"

text \<open>A request body with the two properties of a filter document.\<close>

definition cc_body :: "jsonv \<Rightarrow> jsonv \<Rightarrow> jsonv" where
  "cc_body n v = JObj [(''name'', n), (''values'', v)]"


text \<open>The same store, except that it rejects every write under \<^verbatim>\<open>metadata/\<close>;
  and a \<^verbatim>\<open>save-enhanced\<close> request with a given body.\<close>

definition env_metadata_put_fails :: env where
  "env_metadata_put_fails =
     example_env\<lparr>put := (\<lambda>p c opts. if take 9 p = ''metadata/''
                                    then Inl (Exn ''store unavailable'' None)
                                    else Inr (example_blob p))\<rparr>"

definition save_request :: "(string \<times> jsonv) list \<Rightarrow> request" where
  "save_request kvs = example_request ''POST'' ''save-enhanced'' (Inr (JObj kvs))"

fun is_del :: "call \<Rightarrow> bool" where
  "is_del (Del u) = True"
| "is_del c = False"

text \<open>A body that does not parse, and the environment under two other settings of
  \<^verbatim>\<open>NODE_ENV\<close>.\<close>

definition parse_error :: exn where
  "parse_error =
     Exn ''Unexpected end of JSON input''
       (Some ''SyntaxError: Unexpected end of JSON input at JSON.parse'')"

definition env_test_mode :: env where
  "env_test_mode = example_env\<lparr>NODE_ENV := Some ''test''\<rparr>"

definition env_development :: env where
  "env_development = example_env\<lparr>NODE_ENV := Some ''development''\<rparr>"

section \<open>Facts about the helpers\<close>

declare fill_bytes.simps [simp del]
declare decimal.simps [simp del]

text \<open>The copying loop writes the character codes of the decoded string, in order.\<close>

lemma fill_bytes_from:
  "length bytes = length s \<Longrightarrow> i \<le> length s \<Longrightarrow>
   fill_bytes s i bytes = take i bytes @ map of_char (drop i s)"
proof (induction s i bytes rule: fill_bytes.induct)
  case (1 s i bytes)
  show ?case
  proof (cases "i < length s")
    case True
    have "fill_bytes s i bytes = fill_bytes s (i + 1) (bytes[i := of_char (s ! i)])"
      using True by (subst fill_bytes.simps) simp
    also have "\<dots> = take (i + 1) (bytes[i := of_char (s ! i)]) @ map of_char (drop (i + 1) s)"
      using True "1.prems" by (intro "1.IH") auto
    also have "take (i + 1) (bytes[i := of_char (s ! i)]) = take i bytes @ [of_char (s ! i)]"
      using True "1.prems" by (simp add: take_Suc_conv_app_nth)
    also have "(take i bytes @ [of_char (s ! i)]) @ map of_char (drop (i + 1) s)
               = take i bytes @ map of_char (drop i s)"
      using Cons_nth_drop_Suc [OF True, symmetric] by simp
    finally show ?thesis .
  next
    case False
    with "1.prems" show ?thesis by (subst fill_bytes.simps) simp
  qed
qed

lemma to_bytes_map: "to_bytes s = map of_char s"
  by (simp add: to_bytes_def fill_bytes_from)

lemma param_or_Some: "get_param request k = Some v \<Longrightarrow> v \<noteq> [] \<Longrightarrow> param_or request k d = v"
  by (simp add: param_or_def)

lemma param_or_None: "get_param request k = None \<Longrightarrow> param_or request k d = d"
  by (simp add: param_or_def)

lemma example_action [simp]: "a \<noteq> [] \<Longrightarrow> param_or (example_request m a j) ''action'' d = a"
  by (simp add: param_or_def get_param_def example_request_def)

lemma example_get_action [simp]: "get_param (example_request m a j) ''action'' = Some a"
  by (simp add: get_param_def example_request_def)

lemma example_method [simp]: "method (example_request m a j) = m"
  by (simp add: example_request_def)

lemma example_json [simp]: "json (example_request m a j) = j"
  by (simp add: example_request_def)

lemma headers_jsonResponse [simp]: "headers (jsonResponse d st hs) = hs"
  by (simp add: jsonResponse_def)

lemma status_jsonResponse [simp]: "status (jsonResponse d st hs) = st"
  by (simp add: jsonResponse_def)

lemma body_jsonResponse [simp]: "resp_body (jsonResponse d st hs) = Some d"
  by (simp add: jsonResponse_def)

section \<open>The preflight short-circuit\<close>



section \<open>The headers of every response\<close>

lemma route_upload_headers:
  "route_upload e request = (Inr r, cs) \<Longrightarrow> headers r = corsHeaders"
  by (auto simp: route_upload_def method_not_allowed_def Let_def split: if_splits sum.splits)

lemma cc_get_headers: "cc_get e = (Inr r, cs) \<Longrightarrow> headers r = corsHeaders"
  by (auto simp: cc_get_def Let_def split: sum.splits)

lemma cc_post_headers: "cc_post e request = (Inr r, cs) \<Longrightarrow> headers r = corsHeaders"
  by (auto simp: cc_post_def missing_name_or_values_def Let_def
      split: if_splits sum.splits jsval.splits jsonv.splits)

lemma delete_by_url_headers:
  "delete_by_url e request msg = (Inr r, cs) \<Longrightarrow> headers r = corsHeaders"
  by (auto simp: delete_by_url_def url_required_def Let_def split: if_splits sum.splits)

lemma route_cc_headers:
  "route_cc e request = (Inr (Some r), cs) \<Longrightarrow> headers r = corsHeaders"
  by (auto simp: route_cc_def map_prod_def map_sum_def
      dest: cc_get_headers cc_post_headers delete_by_url_headers
      split: if_splits sum.splits prod.splits)

lemma route_save_enhanced_headers:
  "route_save_enhanced e request = (Inr r, cs) \<Longrightarrow> headers r = corsHeaders"
  by (auto simp: route_save_enhanced_def method_not_allowed_def Let_def
      split: if_splits sum.splits jsval.splits jsonv.splits option.splits)

lemma route_list_uploads_headers:
  "route_list_uploads e request = (Inr r, cs) \<Longrightarrow> headers r = corsHeaders"
  by (auto simp: route_list_uploads_def method_not_allowed_def Let_def
      split: if_splits sum.splits)

lemma route_delete_upload_headers:
  "route_delete_upload e request = (Inr r, cs) \<Longrightarrow> headers r = corsHeaders"
  by (auto simp: route_delete_upload_def method_not_allowed_def
      dest: delete_by_url_headers split: if_splits)

lemma route_get_metadata_headers:
  "route_get_metadata e request = (Inr r, cs) \<Longrightarrow> headers r = corsHeaders"
  by (auto simp: route_get_metadata_def method_not_allowed_def Let_def
      split: if_splits sum.splits)

lemma after_cc_headers:
  "after_cc e request action = (Inr r, cs) \<Longrightarrow> headers r = corsHeaders"
  by (auto simp: after_cc_def route_health_def route_not_found_def
      dest: route_save_enhanced_headers route_list_uploads_headers
        route_delete_upload_headers route_get_metadata_headers
      split: if_splits)

lemma try_block_headers:
  "try_block e request action = (Inr r, cs) \<Longrightarrow> headers r = corsHeaders"
  by (auto simp: try_block_def
      dest: route_upload_headers route_cc_headers after_cc_headers
      split: if_splits sum.splits prod.splits option.splits)

lemma handler_headers: "headers (fst (handler e request)) = corsHeaders"
  by (auto simp: handler_def error_response_def Let_def
      dest: try_block_headers split: sum.splits prod.splits)

text \<open>
  Claim C7. Every response of the handler, whatever the request and whatever the
  collaborators do (a success, a validation failure, the 404 fallback, a caught exception,
  the preflight), carries \<^verbatim>\<open>Access-Control-Allow-Origin: *\<close>,
  \<^verbatim>\<open>Access-Control-Allow-Methods: GET, POST, DELETE, OPTIONS\<close> and
  \<^verbatim>\<open>Access-Control-Allow-Headers: Content-Type\<close>.
\<close>

theorem cors_on_every_response:
  "map_of (headers (fst (handler e request))) ''Access-Control-Allow-Origin'' = Some ''*''
   \<and> map_of (headers (fst (handler e request))) ''Access-Control-Allow-Methods''
       = Some ''GET, POST, DELETE, OPTIONS''
   \<and> map_of (headers (fst (handler e request))) ''Access-Control-Allow-Headers''
       = Some ''Content-Type''"
  by (simp add: handler_headers corsHeaders_def)

section \<open>The fallback and the health probe\<close>

lemma availableActions_notin:
  "a \<notin> set availableActions \<longleftrightarrow>
     a \<noteq> ''upload'' \<and> a \<noteq> ''cc'' \<and> a \<noteq> ''save-enhanced'' \<and> a \<noteq> ''list-uploads''
     \<and> a \<noteq> ''delete-upload'' \<and> a \<noteq> ''get-metadata'' \<and> a \<noteq> ''health''"
  by (auto simp: availableActions_def)

lemma try_block_unknown:
  assumes "action \<notin> set availableActions"
  shows "try_block e request action = (Inr route_not_found, [])"
  using assms unfolding availableActions_notin
  by (simp add: try_block_def after_cc_def)

lemma try_block_health: "try_block e request ''health'' = (Inr (route_health e), [])"
  by (simp add: try_block_def after_cc_def)

lemma unknown_notin: "''unknown'' \<notin> set availableActions"
  by (simp add: availableActions_def)

lemma action_unknown:
  assumes "get_param request ''action'' \<notin> Some ` set availableActions"
  shows "param_or request ''action'' ''unknown'' \<notin> set availableActions"
proof (cases "get_param request ''action''")
  case None
  then show ?thesis by (simp add: param_or_def unknown_notin)
next
  case (Some a)
  with assms have "a \<notin> set availableActions" by auto
  with Some show ?thesis by (simp add: param_or_def unknown_notin)
qed

text \<open>
  Claim C3. A request whose method is not \<^verbatim>\<open>OPTIONS\<close> and whose
  \<^verbatim>\<open>action\<close> parameter is none of the seven known names (an absent or empty
  parameter stands for \<^verbatim>\<open>unknown\<close>) is answered with status 404, the error
  \<^verbatim>\<open>Invalid action\<close> and the list of the seven actions; a request for
  \<^verbatim>\<open>health\<close> (with \<^verbatim>\<open>GET\<close> or any other method but
  \<^verbatim>\<open>OPTIONS\<close>) is answered with status 200, \<^verbatim>\<open>success: true\<close>,
  \<^verbatim>\<open>status: healthy\<close>, a timestamp and the same list. Neither makes a call.
\<close>

theorem unknown_action_and_health:
  assumes "method request \<noteq> ''OPTIONS''"
  shows "(get_param request ''action'' \<notin> Some ` set availableActions \<longrightarrow>
            handler e request =
              (\<lparr>status = 404, headers = corsHeaders,
                resp_body = Some (JObj [(''success'', JBool False),
                                        (''error'', JStr ''Invalid action''),
                                        (''availableActions'', JArr (map JStr availableActions))])\<rparr>,
               []))
       \<and> (get_param request ''action'' = Some ''health'' \<longrightarrow>
            handler e request =
              (\<lparr>status = 200, headers = corsHeaders,
                resp_body = Some (JObj [(''success'', JBool True),
                                        (''status'', JStr ''healthy''),
                                        (''timestamp'', JStr (toISOString e (Date_now e 0))),
                                        (''availableActions'', JArr (map JStr availableActions))])\<rparr>,
               []))
       \<and> availableActions = [''upload'', ''cc'', ''save-enhanced'', ''list-uploads'',
                               ''delete-upload'', ''get-metadata'', ''health'']"
proof (intro conjI impI)
  assume "get_param request ''action'' \<notin> Some ` set availableActions"
  then have "try_block e request (param_or request ''action'' ''unknown'')
               = (Inr route_not_found, [])"
    by (intro try_block_unknown action_unknown)
  with assms show "handler e request =
      (\<lparr>status = 404, headers = corsHeaders,
        resp_body = Some (JObj [(''success'', JBool False),
                                (''error'', JStr ''Invalid action''),
                                (''availableActions'', JArr (map JStr availableActions))])\<rparr>,
       [])"
    by (simp add: handler_def route_not_found_def jsonResponse_def)
next
  assume "get_param request ''action'' = Some ''health''"
  then have "param_or request ''action'' ''unknown'' = ''health''"
    by (simp add: param_or_def)
  with assms show "handler e request =
      (\<lparr>status = 200, headers = corsHeaders,
        resp_body = Some (JObj [(''success'', JBool True),
                                (''status'', JStr ''healthy''),
                                (''timestamp'', JStr (toISOString e (Date_now e 0))),
                                (''availableActions'', JArr (map JStr availableActions))])\<rparr>,
       [])"
    by (simp add: handler_def try_block_health route_health_def jsonResponse_def)
next
  show "availableActions = [''upload'', ''cc'', ''save-enhanced'', ''list-uploads'',
                            ''delete-upload'', ''get-metadata'', ''health'']"
    by (simp add: availableActions_def)
qed

theorem unknown_action_and_health_witness:
  "handler example_env (example_request ''GET'' ''unknown-action'' (Inr JNull)) =
     (\<lparr>status = 404, headers = corsHeaders,
       resp_body = Some (JObj [(''success'', JBool False),
                               (''error'', JStr ''Invalid action''),
                               (''availableActions'',
                                  JArr [JStr ''upload'', JStr ''cc'', JStr ''save-enhanced'',
                                        JStr ''list-uploads'', JStr ''delete-upload'',
                                        JStr ''get-metadata'', JStr ''health''])])\<rparr>, [])
   \<and> handler example_env request_without_action =
     (\<lparr>status = 404, headers = corsHeaders,
       resp_body = Some (JObj [(''success'', JBool False),
                               (''error'', JStr ''Invalid action''),
                               (''availableActions'',
                                  JArr [JStr ''upload'', JStr ''cc'', JStr ''save-enhanced'',
                                        JStr ''list-uploads'', JStr ''delete-upload'',
                                        JStr ''get-metadata'', JStr ''health''])])\<rparr>, [])
   \<and> handler example_env (example_request ''GET'' ''health'' (Inr JNull)) =
     (\<lparr>status = 200, headers = corsHeaders,
       resp_body = Some (JObj [(''success'', JBool True),
                               (''status'', JStr ''healthy''),
                               (''timestamp'', JStr ''2023-11-14T22:13:20.000Z''),
                               (''availableActions'',
                                  JArr [JStr ''upload'', JStr ''cc'', JStr ''save-enhanced'',
                                        JStr ''list-uploads'', JStr ''delete-upload'',
                                        JStr ''get-metadata'', JStr ''health''])])\<rparr>, [])"
proof -
  let ?r1 = "example_request ''GET'' ''unknown-action'' (Inr JNull)"
  let ?r3 = "example_request ''GET'' ''health'' (Inr JNull)"
  have acts: "map JStr availableActions =
      [JStr ''upload'', JStr ''cc'', JStr ''save-enhanced'', JStr ''list-uploads'',
       JStr ''delete-upload'', JStr ''get-metadata'', JStr ''health'']"
    by (simp add: availableActions_def)
  have time: "toISOString example_env (Date_now example_env 0) = ''2023-11-14T22:13:20.000Z''"
    by (simp add: example_env_def)
  have m1: "method ?r1 \<noteq> ''OPTIONS''" by simp
  have a1: "get_param ?r1 ''action'' \<notin> Some ` set availableActions"
    by (simp add: availableActions_def)
  have m2: "method request_without_action \<noteq> ''OPTIONS''"
    by (simp add: request_without_action_def)
  have a2: "get_param request_without_action ''action'' \<notin> Some ` set availableActions"
    by (simp add: request_without_action_def get_param_def)
  have m3: "method ?r3 \<noteq> ''OPTIONS''" by simp
  have a3: "get_param ?r3 ''action'' = Some ''health''" by simp
  from unknown_action_and_health [OF m1, of example_env] a1
  have r1: "handler example_env ?r1 =
      (\<lparr>status = 404, headers = corsHeaders,
        resp_body = Some (JObj [(''success'', JBool False),
                                (''error'', JStr ''Invalid action''),
                                (''availableActions'', JArr (map JStr availableActions))])\<rparr>,
       [])"
    by blast
  from unknown_action_and_health [OF m2, of example_env] a2
  have r2: "handler example_env request_without_action =
      (\<lparr>status = 404, headers = corsHeaders,
        resp_body = Some (JObj [(''success'', JBool False),
                                (''error'', JStr ''Invalid action''),
                                (''availableActions'', JArr (map JStr availableActions))])\<rparr>,
       [])"
    by blast
  from unknown_action_and_health [OF m3, of example_env] a3
  have r3: "handler example_env ?r3 =
      (\<lparr>status = 200, headers = corsHeaders,
        resp_body = Some (JObj [(''success'', JBool True),
                                (''status'', JStr ''healthy''),
                                (''timestamp'', JStr (toISOString example_env (Date_now example_env 0))),
                                (''availableActions'', JArr (map JStr availableActions))])\<rparr>,
       [])"
    by blast
  show ?thesis
    unfolding r1 r2 r3 acts time by simp
qed

section \<open>The method test of each route\<close>

lemma handler_non_options:
  "method request \<noteq> ''OPTIONS'' \<Longrightarrow>
   handler e request =
     (case try_block e request (param_or request ''action'' ''unknown'') of
        (Inr r, cs) \<Rightarrow> (r, cs)
      | (Inl err, cs) \<Rightarrow> (error_response e err, cs))"
  by (simp add: handler_def)

lemma lift_route:
  "(case map_prod (map_sum id Some) id x of
      (Inl err, cs) \<Rightarrow> (Inl err, cs)
    | (Inr (Some r), cs) \<Rightarrow> (Inr r, cs)
    | (Inr None, cs) \<Rightarrow> f cs) = x"
  by (cases x; cases "fst x") auto

lemma try_block_cc_get:
  "method request = ''GET'' \<Longrightarrow> try_block e request ''cc'' = cc_get e"
  by (simp add: try_block_def route_cc_def lift_route)

lemma try_block_cc_post:
  "method request = ''POST'' \<Longrightarrow> try_block e request ''cc'' = cc_post e request"
  by (simp add: try_block_def route_cc_def lift_route)

lemma try_block_cc_delete:
  "method request = ''DELETE'' \<Longrightarrow>
   try_block e request ''cc'' = delete_by_url e request ''CC filter deleted successfully''"
  by (simp add: try_block_def route_cc_def lift_route)

lemma try_block_cc_other:
  "method request \<noteq> ''GET'' \<Longrightarrow> method request \<noteq> ''POST'' \<Longrightarrow> method request \<noteq> ''DELETE'' \<Longrightarrow>
   try_block e request ''cc'' = (Inr route_not_found, [])"
  by (simp add: try_block_def route_cc_def after_cc_def)

lemma try_block_405:
  assumes "action = ''upload'' \<and> method request \<noteq> ''POST''
         \<or> action = ''save-enhanced'' \<and> method request \<noteq> ''POST''
         \<or> action = ''list-uploads'' \<and> method request \<noteq> ''GET''
         \<or> action = ''delete-upload'' \<and> method request \<noteq> ''DELETE''
         \<or> action = ''get-metadata'' \<and> method request \<noteq> ''GET''"
  shows "try_block e request action = (Inr method_not_allowed, [])"
  using assms
  by (elim disjE conjE)
     (simp_all add: try_block_def after_cc_def route_upload_def route_save_enhanced_def
        route_list_uploads_def route_delete_upload_def route_get_metadata_def)

text \<open>The five routes that test the method answer a mismatch with status 405.\<close>

lemma method_mismatch_405:
  assumes "method request \<noteq> ''OPTIONS''"
    and "get_param request ''action'' = Some action"
    and "action = ''upload'' \<and> method request \<noteq> ''POST''
         \<or> action = ''save-enhanced'' \<and> method request \<noteq> ''POST''
         \<or> action = ''list-uploads'' \<and> method request \<noteq> ''GET''
         \<or> action = ''delete-upload'' \<and> method request \<noteq> ''DELETE''
         \<or> action = ''get-metadata'' \<and> method request \<noteq> ''GET''"
  shows "handler e request =
           (\<lparr>status = 405, headers = corsHeaders,
             resp_body = Some (JObj [(''success'', JBool False),
                                     (''error'', JStr ''Method not allowed'')])\<rparr>, [])"
proof -
  from assms(3) have "action \<noteq> []" by auto
  with assms(2) have "param_or request ''action'' ''unknown'' = action"
    by (simp add: param_or_def)
  with assms(1) try_block_405 [OF assms(3), of e] show ?thesis
    by (simp add: handler_non_options method_not_allowed_def jsonResponse_def)
qed

text \<open>The block of \<^verbatim>\<open>cc\<close> has no such test: any other method falls through to the
  fallback.\<close>

lemma cc_other_method_404:
  assumes "get_param request ''action'' = Some ''cc''"
    and "method request \<noteq> ''OPTIONS''" "method request \<noteq> ''GET''"
    and "method request \<noteq> ''POST''" "method request \<noteq> ''DELETE''"
  shows "handler e request =
           (\<lparr>status = 404, headers = corsHeaders,
             resp_body = Some (JObj [(''success'', JBool False),
                                     (''error'', JStr ''Invalid action''),
                                     (''availableActions'', JArr (map JStr availableActions))])\<rparr>,
            [])"
proof -
  from assms(1) have "param_or request ''action'' ''unknown'' = ''cc''"
    by (simp add: param_or_def)
  with assms(2) try_block_cc_other [OF assms(3-5), of e] show ?thesis
    by (simp add: handler_non_options route_not_found_def jsonResponse_def)
qed

text \<open>
  Claim C1 asks for status 405 and \<^verbatim>\<open>Method not allowed\<close> whenever a recognised
  action is requested with a method it does not support. The routes \<^verbatim>\<open>upload\<close>,
  \<^verbatim>\<open>save-enhanced\<close>, \<^verbatim>\<open>list-uploads\<close>, \<^verbatim>\<open>delete-upload\<close> and
  \<^verbatim>\<open>get-metadata\<close> do so (\<open>method_mismatch_405\<close>); the route \<^verbatim>\<open>cc\<close>
  does not: \<^verbatim>\<open>PUT ?action=cc\<close> is answered with status 404 and
  \<^verbatim>\<open>Invalid action\<close>, in a body that lists \<^verbatim>\<open>cc\<close> among the available
  actions.
\<close>

theorem cc_put_is_answered_404:
  "handler example_env (example_request ''PUT'' ''cc'' (Inr JNull)) =
     (\<lparr>status = 404, headers = corsHeaders,
       resp_body = Some (JObj [(''success'', JBool False),
                               (''error'', JStr ''Invalid action''),
                               (''availableActions'', JArr (map JStr availableActions))])\<rparr>,
      [])"
  by (rule cc_other_method_404) simp_all

section \<open>Creating a filter\<close>

lemma digit_char_is_digit: "is_digit (digit_char d)"
proof -
  have "d mod 10 < length ''0123456789''" by simp
  then have "''0123456789'' ! (d mod 10) \<in> set ''0123456789''" by (rule nth_mem)
  then show ?thesis by (simp only: digit_char_def is_digit_def)
qed

lemma decimal_digits: "decimal n \<noteq> [] \<and> list_all is_digit (decimal n)"
proof (induction n rule: decimal.induct)
  case (1 n)
  show ?case
  proof (cases "n < 10")
    case True
    then show ?thesis by (subst (1 2) decimal.simps) (simp add: digit_char_is_digit)
  next
    case False
    with "1.IH" show ?thesis by (subst (1 2) decimal.simps) (simp add: digit_char_is_digit)
  qed
qed

lemma is_safe_underscore: "is_safe (CHR ''_'')"
  by (simp add: is_safe_def)

lemma safeName_length: "length (safeName s) = length s"
  by (simp add: safeName_def)

lemma safeName_safe: "list_all is_safe (safeName s)"
  by (induction s) (simp_all add: safeName_def is_safe_underscore)

lemma safeName_nth:
  "i < length s \<Longrightarrow> safeName s ! i = (if is_safe (s ! i) then s ! i else CHR ''_'')"
  by (simp add: safeName_def)

lemma cc_post_missing:
  assumes "json request = Inr (JObj kvs)"
    and "(case map_of kvs ''name'' of None \<Rightarrow> True | Some v \<Rightarrow> \<not> truthy v)
         \<or> (case map_of kvs ''values'' of None \<Rightarrow> True | Some v \<Rightarrow> \<not> truthy v)"
  shows "cc_post e request = (Inr missing_name_or_values, [])"
  using assms by (auto simp: cc_post_def split: option.splits)

lemma cc_post_stored:
  assumes "json request = Inr (JObj kvs)"
    and "map_of kvs ''name'' = Some (JStr s)" "s \<noteq> []"
    and "map_of kvs ''values'' = Some v" "truthy v"
    and "put e (''cc-filters/'' @ safeName s @ ''_'' @ decimal (Date_now e 0) @ ''.json'')
           (JsonText (JObj kvs))
           \<lparr>access = ''public'', contentType = Some ''application/json'',
            addRandomSuffix = None\<rparr> = Inr b"
  shows "cc_post e request =
     (Inr (jsonResponse
        (JObj [(''success'', JBool True), (''url'', JStr (url b)), (''name'', JStr s),
               (''uploadedAt'', JStr (toISOString e (Date_now e 1)))])
        200 corsHeaders),
      [Put (''cc-filters/'' @ safeName s @ ''_'' @ decimal (Date_now e 0) @ ''.json'')
         (JsonText (JObj kvs))
         \<lparr>access = ''public'', contentType = Some ''application/json'',
          addRandomSuffix = None\<rparr>])"
  using assms by (simp add: cc_post_def Let_def)

lemma handler_cc_post:
  assumes "method request = ''POST''" and "get_param request ''action'' = Some ''cc''"
    and "cc_post e request = (Inr r, cs)"
  shows "handler e request = (r, cs)"
proof -
  from assms(2) have "param_or request ''action'' ''unknown'' = ''cc''"
    by (simp add: param_or_def)
  with assms(1,3) show ?thesis
    by (simp add: handler_non_options try_block_cc_post)
qed

text \<open>
  Claim C10. For \<^verbatim>\<open>POST ?action=cc\<close> the test of \<^verbatim>\<open>name\<close> and
  \<^verbatim>\<open>values\<close> is a test of truthiness, not of presence: a body whose
  \<^verbatim>\<open>name\<close> or \<^verbatim>\<open>values\<close> is present but falsy (\<^verbatim>\<open>0\<close>,
  \<^verbatim>\<open>false\<close>, \<^verbatim>\<open>null\<close>, the empty string) is answered with status 400
  and \<^verbatim>\<open>Missing name or values\<close>, and nothing is stored.
\<close>

theorem cc_post_falsy_rejected:
  assumes "method request = ''POST''" and "get_param request ''action'' = Some ''cc''"
    and "json request = Inr (JObj kvs)"
    and "(\<exists>v. map_of kvs ''name'' = Some v \<and> \<not> truthy v)
         \<or> (\<exists>v. map_of kvs ''values'' = Some v \<and> \<not> truthy v)"
  shows "handler e request =
           (\<lparr>status = 400, headers = corsHeaders,
             resp_body = Some (JObj [(''success'', JBool False),
                                     (''error'', JStr ''Missing name or values'')])\<rparr>, [])"
proof -
  from assms(4)
  have "(case map_of kvs ''name'' of None \<Rightarrow> True | Some v \<Rightarrow> \<not> truthy v)
        \<or> (case map_of kvs ''values'' of None \<Rightarrow> True | Some v \<Rightarrow> \<not> truthy v)"
    by auto
  from cc_post_missing [OF assms(3) this]
  have "cc_post e request = (Inr missing_name_or_values, [])" .
  from handler_cc_post [OF assms(1,2) this] show ?thesis
    by (simp add: missing_name_or_values_def jsonResponse_def)
qed

lemma example_cc_hyps:
  "method (example_request ''POST'' ''cc'' (Inr (JObj kvs))) = ''POST''"
  "get_param (example_request ''POST'' ''cc'' (Inr (JObj kvs))) ''action'' = Some ''cc''"
  "json (example_request ''POST'' ''cc'' (Inr (JObj kvs))) = Inr (JObj kvs)"
  by simp_all

theorem cc_post_falsy_rejected_witness:
  "list_all
     (\<lambda>b. handler example_env (example_request ''POST'' ''cc'' (Inr b)) =
            (\<lparr>status = 400, headers = corsHeaders,
              resp_body = Some (JObj [(''success'', JBool False),
                                      (''error'', JStr ''Missing name or values'')])\<rparr>, []))
     [cc_body (JStr ''Warm'') (JNum 0),
      cc_body (JStr ''Warm'') (JBool False),
      cc_body (JStr ''Warm'') JNull,
      cc_body (JStr ''Warm'') (JStr []),
      cc_body (JStr []) (JObj [(''a'', JNum 1)])]"
proof -
  have "handler example_env (example_request ''POST'' ''cc'' (Inr (cc_body n v))) =
            (\<lparr>status = 400, headers = corsHeaders,
              resp_body = Some (JObj [(''success'', JBool False),
                                      (''error'', JStr ''Missing name or values'')])\<rparr>, [])"
    if "\<not> truthy n \<or> \<not> truthy v" for n v
    unfolding cc_body_def
    by (rule cc_post_falsy_rejected [OF example_cc_hyps]) (use that in auto)
  then show ?thesis by simp
qed

text \<open>
  Claim C4 says that a body which has both \<^verbatim>\<open>name\<close> and \<^verbatim>\<open>values\<close>
  is stored. The body \<^verbatim>\<open>{"name":"Warm","values":0}\<close> has both, and is answered
  with status 400 without any call on the store.
\<close>

theorem cc_post_values_zero_counterexample:
  "map_of [(''name'', JStr ''Warm''), (''values'', JNum 0)] ''name'' = Some (JStr ''Warm'')
   \<and> map_of [(''name'', JStr ''Warm''), (''values'', JNum 0)] ''values'' = Some (JNum 0)
   \<and> handler example_env
         (example_request ''POST'' ''cc''
            (Inr (JObj [(''name'', JStr ''Warm''), (''values'', JNum 0)]))) =
       (\<lparr>status = 400, headers = corsHeaders,
         resp_body = Some (JObj [(''success'', JBool False),
                                 (''error'', JStr ''Missing name or values'')])\<rparr>, [])"
proof -
  let ?kvs = "[(''name'', JStr ''Warm''), (''values'', JNum 0)]"
  let ?r = "example_request ''POST'' ''cc'' (Inr (JObj ?kvs))"
  have "cc_post example_env ?r = (Inr missing_name_or_values, [])"
    by (rule cc_post_missing [where kvs = ?kvs]) simp_all
  from handler_cc_post [OF _ _ this] have "handler example_env ?r = (missing_name_or_values, [])"
    by simp
  then show ?thesis
    by (simp add: missing_name_or_values_def jsonResponse_def)
qed

text \<open>
  Claim C4, amended. For \<^verbatim>\<open>POST ?action=cc\<close> with a JSON object as body: if
  \<^verbatim>\<open>name\<close> or \<^verbatim>\<open>values\<close> is absent or falsy, the response is status
  400 with \<^verbatim>\<open>Missing name or values\<close> and nothing is stored; if
  \<^verbatim>\<open>name\<close> is a non-empty string, \<^verbatim>\<open>values\<close> is truthy and the
  store accepts the write, exactly one object is put, the JSON text of the body at the
  pathname \<^verbatim>\<open>cc-filters/<safeName>_<timestamp>.json\<close> with the JSON content type,
  and the response is \<^verbatim>\<open>{success:true, url, name, uploadedAt}\<close> with
  \<^verbatim>\<open>name\<close> as it was sent. \<^verbatim>\<open>safeName\<close> has the length of the name and
  keeps a character of \<^verbatim>\<open>[a-zA-Z0-9-_]\<close>, writing \<^verbatim>\<open>_\<close> for any
  other; the timestamp is a non-empty run of decimal digits.
\<close>

theorem cc_post_contract:
  assumes "method request = ''POST''" and "get_param request ''action'' = Some ''cc''"
    and "json request = Inr (JObj kvs)"
  shows "((case map_of kvs ''name'' of None \<Rightarrow> True | Some v \<Rightarrow> \<not> truthy v)
          \<or> (case map_of kvs ''values'' of None \<Rightarrow> True | Some v \<Rightarrow> \<not> truthy v) \<longrightarrow>
           handler e request =
             (\<lparr>status = 400, headers = corsHeaders,
               resp_body = Some (JObj [(''success'', JBool False),
                                       (''error'', JStr ''Missing name or values'')])\<rparr>, []))
       \<and> (\<forall>s v b.
             map_of kvs ''name'' = Some (JStr s) \<and> s \<noteq> []
             \<and> map_of kvs ''values'' = Some v \<and> truthy v
             \<and> put e (''cc-filters/'' @ safeName s @ ''_'' @ decimal (Date_now e 0) @ ''.json'')
                   (JsonText (JObj kvs))
                   \<lparr>access = ''public'', contentType = Some ''application/json'',
                    addRandomSuffix = None\<rparr> = Inr b \<longrightarrow>
             handler e request =
               (\<lparr>status = 200, headers = corsHeaders,
                 resp_body = Some (JObj [(''success'', JBool True),
                                         (''url'', JStr (url b)),
                                         (''name'', JStr s),
                                         (''uploadedAt'', JStr (toISOString e (Date_now e 1)))])\<rparr>,
                [Put (''cc-filters/'' @ safeName s @ ''_'' @ decimal (Date_now e 0) @ ''.json'')
                   (JsonText (JObj kvs))
                   \<lparr>access = ''public'', contentType = Some ''application/json'',
                    addRandomSuffix = None\<rparr>]))
       \<and> (\<forall>s. length (safeName s) = length s
              \<and> (\<forall>i<length s. safeName s ! i = (if is_safe (s ! i) then s ! i else CHR ''_'')))
       \<and> (\<forall>n. decimal n \<noteq> [] \<and> list_all is_digit (decimal n))"
proof (intro conjI impI allI)
  assume "(case map_of kvs ''name'' of None \<Rightarrow> True | Some v \<Rightarrow> \<not> truthy v)
          \<or> (case map_of kvs ''values'' of None \<Rightarrow> True | Some v \<Rightarrow> \<not> truthy v)"
  from cc_post_missing [OF assms(3) this]
  have "cc_post e request = (Inr missing_name_or_values, [])" .
  from handler_cc_post [OF assms(1,2) this]
  show "handler e request =
             (\<lparr>status = 400, headers = corsHeaders,
               resp_body = Some (JObj [(''success'', JBool False),
                                       (''error'', JStr ''Missing name or values'')])\<rparr>, [])"
    by (simp add: missing_name_or_values_def jsonResponse_def)
next
  fix s v b
  assume h: "map_of kvs ''name'' = Some (JStr s) \<and> s \<noteq> []
             \<and> map_of kvs ''values'' = Some v \<and> truthy v
             \<and> put e (''cc-filters/'' @ safeName s @ ''_'' @ decimal (Date_now e 0) @ ''.json'')
                   (JsonText (JObj kvs))
                   \<lparr>access = ''public'', contentType = Some ''application/json'',
                    addRandomSuffix = None\<rparr> = Inr b"
  then have "cc_post e request =
     (Inr (jsonResponse
        (JObj [(''success'', JBool True), (''url'', JStr (url b)), (''name'', JStr s),
               (''uploadedAt'', JStr (toISOString e (Date_now e 1)))])
        200 corsHeaders),
      [Put (''cc-filters/'' @ safeName s @ ''_'' @ decimal (Date_now e 0) @ ''.json'')
         (JsonText (JObj kvs))
         \<lparr>access = ''public'', contentType = Some ''application/json'',
          addRandomSuffix = None\<rparr>])"
    by (intro cc_post_stored [OF assms(3)]) blast+
  from handler_cc_post [OF assms(1,2) this]
  show "handler e request =
               (\<lparr>status = 200, headers = corsHeaders,
                 resp_body = Some (JObj [(''success'', JBool True),
                                         (''url'', JStr (url b)),
                                         (''name'', JStr s),
                                         (''uploadedAt'', JStr (toISOString e (Date_now e 1)))])\<rparr>,
                [Put (''cc-filters/'' @ safeName s @ ''_'' @ decimal (Date_now e 0) @ ''.json'')
                   (JsonText (JObj kvs))
                   \<lparr>access = ''public'', contentType = Some ''application/json'',
                    addRandomSuffix = None\<rparr>])"
    by (simp add: jsonResponse_def)
next
  fix s :: string show "length (safeName s) = length s" by (rule safeName_length)
next
  fix s :: string and i assume "i < length s"
  then show "safeName s ! i = (if is_safe (s ! i) then s ! i else CHR ''_'')"
    by (rule safeName_nth)
next
  fix n show "decimal n \<noteq> []" using decimal_digits [of n] by simp
next
  fix n show "list_all is_digit (decimal n)" using decimal_digits [of n] by simp
qed

lemma safeName_example: "safeName ''My Filter!'' = ''My_Filter_''"
  by (simp add: safeName_def is_safe_def is_lower_def is_upper_def is_digit_def)

lemma decimal_example: "decimal 1700000000000 = ''1700000000000''"
  by (simp add: decimal.simps digit_char_def)

lemma example_env_fields:
  "Date_now example_env k = 1700000000000 + k"
  "toISOString example_env t = ''2023-11-14T22:13:20.000Z''"
  "put example_env p c opts = Inr (example_blob p)"
  "NODE_ENV example_env = Some ''production''"
  by (simp_all add: example_env_def)

theorem cc_post_contract_witness:
  "handler example_env
     (example_request ''POST'' ''cc''
        (Inr (JObj [(''name'', JStr ''My Filter!''), (''values'', JObj [(''a'', JNum 1)])]))) =
   (\<lparr>status = 200, headers = corsHeaders,
     resp_body = Some (JObj [(''success'', JBool True),
                             (''url'', JStr ''https://store.example/cc-filters/My_Filter__1700000000000.json''),
                             (''name'', JStr ''My Filter!''),
                             (''uploadedAt'', JStr ''2023-11-14T22:13:20.000Z'')])\<rparr>,
    [Put ''cc-filters/My_Filter__1700000000000.json''
       (JsonText (JObj [(''name'', JStr ''My Filter!''), (''values'', JObj [(''a'', JNum 1)])]))
       \<lparr>access = ''public'', contentType = Some ''application/json'',
        addRandomSuffix = None\<rparr>])
   \<and> handler example_env (example_request ''POST'' ''cc'' (Inr (JObj []))) =
       (\<lparr>status = 400, headers = corsHeaders,
         resp_body = Some (JObj [(''success'', JBool False),
                                 (''error'', JStr ''Missing name or values'')])\<rparr>, [])"
proof -
  let ?kvs = "[(''name'', JStr ''My Filter!''), (''values'', JObj [(''a'', JNum 1)])]"
  let ?opts = "\<lparr>access = ''public'', contentType = Some ''application/json'',
                addRandomSuffix = None\<rparr>"
  let ?p = "''cc-filters/'' @ safeName ''My Filter!'' @ ''_'' @ decimal (Date_now example_env 0)
              @ ''.json''"
  have p: "?p = ''cc-filters/My_Filter__1700000000000.json''"
    by (simp add: safeName_example example_env_fields decimal_example)
  have stored: "map_of ?kvs ''name'' = Some (JStr ''My Filter!'') \<and> ''My Filter!'' \<noteq> []
      \<and> map_of ?kvs ''values'' = Some (JObj [(''a'', JNum 1)]) \<and> truthy (JObj [(''a'', JNum 1)])
      \<and> put example_env ?p (JsonText (JObj ?kvs)) ?opts = Inr (example_blob ?p)"
    by (simp add: example_env_fields)
  from cc_post_contract [OF example_cc_hyps, of ?kvs example_env] stored
  have "handler example_env (example_request ''POST'' ''cc'' (Inr (JObj ?kvs))) =
      (\<lparr>status = 200, headers = corsHeaders,
        resp_body = Some (JObj [(''success'', JBool True),
                                (''url'', JStr (url (example_blob ?p))),
                                (''name'', JStr ''My Filter!''),
                                (''uploadedAt'',
                                   JStr (toISOString example_env (Date_now example_env 1)))])\<rparr>,
       [Put ?p (JsonText (JObj ?kvs)) ?opts])"
    by blast
  then have first: "handler example_env (example_request ''POST'' ''cc'' (Inr (JObj ?kvs))) =
      (\<lparr>status = 200, headers = corsHeaders,
        resp_body = Some (JObj [(''success'', JBool True),
                                (''url'', JStr ''https://store.example/cc-filters/My_Filter__1700000000000.json''),
                                (''name'', JStr ''My Filter!''),
                                (''uploadedAt'', JStr ''2023-11-14T22:13:20.000Z'')])\<rparr>,
       [Put ''cc-filters/My_Filter__1700000000000.json'' (JsonText (JObj ?kvs)) ?opts])"
    unfolding p by (simp add: example_env_fields example_blob_def)
  have "(case map_of [] ''name'' of None \<Rightarrow> True | Some v \<Rightarrow> \<not> truthy v)
        \<or> (case map_of [] ''values'' of None \<Rightarrow> True | Some v \<Rightarrow> \<not> truthy v)"
    by simp
  with cc_post_contract [OF example_cc_hyps, of "[]" example_env]
  have second: "handler example_env (example_request ''POST'' ''cc'' (Inr (JObj []))) =
       (\<lparr>status = 400, headers = corsHeaders,
         resp_body = Some (JObj [(''success'', JBool False),
                                 (''error'', JStr ''Missing name or values'')])\<rparr>, [])"
    by blast
  from first second show ?thesis by (rule conjI)
qed

section \<open>Saving an enhanced image\<close>

lemma match_data_url_nonempty: "match_data_url s = Some p \<Longrightarrow> s \<noteq> []"
  by (auto simp: match_data_url_def)

lemma try_block_save_enhanced:
  "try_block e request ''save-enhanced'' = route_save_enhanced e request"
  by (simp add: try_block_def after_cc_def)

lemma handler_save_enhanced:
  assumes "method request = ''POST''" and "get_param request ''action'' = Some ''save-enhanced''"
  shows "handler e request =
           (case route_save_enhanced e request of
              (Inr r, cs) \<Rightarrow> (r, cs)
            | (Inl err, cs) \<Rightarrow> (error_response e err, cs))"
proof -
  from assms(2) have "param_or request ''action'' ''unknown'' = ''save-enhanced''"
    by (simp add: param_or_def)
  with assms(1) show ?thesis
    by (simp add: handler_non_options try_block_save_enhanced)
qed

lemma save_enhanced_decoded:
  assumes "method request = ''POST''" and "json request = Inr (JObj kvs)"
    and "map_of kvs ''image'' = Some (JStr s)" and "match_data_url s = Some payload"
    and "atob e payload = Inr bin"
  shows "route_save_enhanced e request =
     (case put e (''enhanced/enhanced_'' @ decimal (Date_now e 0) @ ''.jpg'')
             (Bytes (map of_char bin))
             \<lparr>access = ''public'', contentType = Some ''image/jpeg'', addRandomSuffix = None\<rparr> of
        Inl err \<Rightarrow>
          (Inl err,
           [Put (''enhanced/enhanced_'' @ decimal (Date_now e 0) @ ''.jpg'')
              (Bytes (map of_char bin))
              \<lparr>access = ''public'', contentType = Some ''image/jpeg'', addRandomSuffix = None\<rparr>])
      | Inr b \<Rightarrow>
          (if (case map_of kvs ''metadata'' of None \<Rightarrow> False | Some m \<Rightarrow> truthy m) then
             (case put e (''metadata/meta_'' @ decimal (Date_now e 1) @ ''.json'')
                     (JsonText (JObj
                        (assign (assign (spread (the (map_of kvs ''metadata''))) ''imageUrl''
                                   (JStr (url b)))
                           ''timestamp'' (JStr (toISOString e (Date_now e 2))))))
                     \<lparr>access = ''public'', contentType = Some ''application/json'',
                      addRandomSuffix = None\<rparr> of
                Inl err \<Rightarrow> Inl err
              | Inr mb \<Rightarrow>
                  Inr (jsonResponse
                         (JObj ([(''success'', JBool True), (''url'', JStr (url b))]
                            @ field ''downloadUrl'' (opt_str (downloadUrl b))
                            @ field ''size'' (opt_num (size_put b))))
                         200 corsHeaders),
              [Put (''enhanced/enhanced_'' @ decimal (Date_now e 0) @ ''.jpg'')
                 (Bytes (map of_char bin))
                 \<lparr>access = ''public'', contentType = Some ''image/jpeg'',
                  addRandomSuffix = None\<rparr>,
               Put (''metadata/meta_'' @ decimal (Date_now e 1) @ ''.json'')
                 (JsonText (JObj
                    (assign (assign (spread (the (map_of kvs ''metadata''))) ''imageUrl''
                               (JStr (url b)))
                       ''timestamp'' (JStr (toISOString e (Date_now e 2))))))
                 \<lparr>access = ''public'', contentType = Some ''application/json'',
                  addRandomSuffix = None\<rparr>])
           else
             (Inr (jsonResponse
                     (JObj ([(''success'', JBool True), (''url'', JStr (url b))]
                        @ field ''downloadUrl'' (opt_str (downloadUrl b))
                        @ field ''size'' (opt_num (size_put b))))
                     200 corsHeaders),
              [Put (''enhanced/enhanced_'' @ decimal (Date_now e 0) @ ''.jpg'')
                 (Bytes (map of_char bin))
                 \<lparr>access = ''public'', contentType = Some ''image/jpeg'',
                  addRandomSuffix = None\<rparr>])))"
proof -
  from assms(4) have "s \<noteq> []" by (rule match_data_url_nonempty)
  with assms show ?thesis
    by (simp add: route_save_enhanced_def Let_def to_bytes_map
        split: sum.splits option.splits)
qed


lemma example_save_hyps:
  "method (save_request kvs) = ''POST''"
  "get_param (save_request kvs) ''action'' = Some ''save-enhanced''"
  "json (save_request kvs) = Inr (JObj kvs)"
  by (simp_all add: save_request_def)

lemma match_example: "match_data_url ''data:image/jpeg;base64,QUJD'' = Some ''QUJD''"
  by (simp add: match_data_url_def is_word_def is_lower_def is_upper_def is_digit_def
      is_line_terminator_def)


lemma decimal_example1: "decimal 1700000000001 = ''1700000000001''"
  by (simp add: decimal.simps digit_char_def)


lemma env_metadata_put_fails_fields:
  "Date_now env_metadata_put_fails k = 1700000000000 + k"
  "toISOString env_metadata_put_fails t = ''2023-11-14T22:13:20.000Z''"
  "atob env_metadata_put_fails ''QUJD'' = Inr ''ABC''"
  "NODE_ENV env_metadata_put_fails = Some ''production''"
  "put env_metadata_put_fails p c opts =
     (if take 9 p = ''metadata/'' then Inl (Exn ''store unavailable'' None)
      else Inr (example_blob p))"
  by (simp_all add: env_metadata_put_fails_def example_env_def)

text \<open>
  Claim C2 says that a failure of the metadata put is silently ignored and the request still
  returns the success envelope. With a store that accepts the image and rejects the metadata
  document the response is status 500 with the store's message: the second
  \<^verbatim>\<open>await put\<close> stands in the router's \<^verbatim>\<open>try\<close> with no handler of
  its own.
\<close>

theorem metadata_put_failure_counterexample:
  "put env_metadata_put_fails ''enhanced/enhanced_1700000000000.jpg'' (Bytes [65, 66, 67])
     \<lparr>access = ''public'', contentType = Some ''image/jpeg'', addRandomSuffix = None\<rparr>
     = Inr (example_blob ''enhanced/enhanced_1700000000000.jpg'')
   \<and> handler env_metadata_put_fails
         (save_request [(''image'', JStr ''data:image/jpeg;base64,QUJD''),
                        (''metadata'', JObj [(''filter'', JStr ''warm'')])]) =
       (\<lparr>status = 500, headers = corsHeaders,
         resp_body = Some (JObj [(''success'', JBool False),
                                 (''error'', JStr ''store unavailable'')])\<rparr>,
        [Put ''enhanced/enhanced_1700000000000.jpg'' (Bytes [65, 66, 67])
           \<lparr>access = ''public'', contentType = Some ''image/jpeg'', addRandomSuffix = None\<rparr>,
         Put ''metadata/meta_1700000000001.json''
           (JsonText (JObj [(''filter'', JStr ''warm''),
                            (''imageUrl'',
                               JStr ''https://store.example/enhanced/enhanced_1700000000000.jpg''),
                            (''timestamp'', JStr ''2023-11-14T22:13:20.000Z'')]))
           \<lparr>access = ''public'', contentType = Some ''application/json'',
            addRandomSuffix = None\<rparr>])"
proof -
  let ?kvs = "[(''image'', JStr ''data:image/jpeg;base64,QUJD''),
               (''metadata'', JObj [(''filter'', JStr ''warm'')])]"
  have i: "map_of ?kvs ''image'' = Some (JStr ''data:image/jpeg;base64,QUJD'')" by simp
  have "route_save_enhanced env_metadata_put_fails (save_request ?kvs) =
      (Inl (Exn ''store unavailable'' None),
       [Put ''enhanced/enhanced_1700000000000.jpg'' (Bytes [65, 66, 67])
           \<lparr>access = ''public'', contentType = Some ''image/jpeg'', addRandomSuffix = None\<rparr>,
         Put ''metadata/meta_1700000000001.json''
           (JsonText (JObj [(''filter'', JStr ''warm''),
                            (''imageUrl'',
                               JStr ''https://store.example/enhanced/enhanced_1700000000000.jpg''),
                            (''timestamp'', JStr ''2023-11-14T22:13:20.000Z'')]))
           \<lparr>access = ''public'', contentType = Some ''application/json'',
            addRandomSuffix = None\<rparr>])"
    unfolding save_enhanced_decoded
                [OF example_save_hyps(1,3) i match_example env_metadata_put_fails_fields(3)]
    by (simp add: env_metadata_put_fails_fields decimal_example decimal_example1 example_blob_def)
  then have "handler env_metadata_put_fails (save_request ?kvs) =
      (error_response env_metadata_put_fails (Exn ''store unavailable'' None),
       [Put ''enhanced/enhanced_1700000000000.jpg'' (Bytes [65, 66, 67])
           \<lparr>access = ''public'', contentType = Some ''image/jpeg'', addRandomSuffix = None\<rparr>,
         Put ''metadata/meta_1700000000001.json''
           (JsonText (JObj [(''filter'', JStr ''warm''),
                            (''imageUrl'',
                               JStr ''https://store.example/enhanced/enhanced_1700000000000.jpg''),
                            (''timestamp'', JStr ''2023-11-14T22:13:20.000Z'')]))
           \<lparr>access = ''public'', contentType = Some ''application/json'',
            addRandomSuffix = None\<rparr>])"
    by (simp add: handler_save_enhanced [OF example_save_hyps(1,2)])
  then show ?thesis
    by (simp add: error_response_def jsonResponse_def env_metadata_put_fails_fields)
qed

text \<open>
  Claim C2, amended. In the save-enhanced flow with a truthy \<^verbatim>\<open>metadata\<close>, when
  the image put has succeeded and the metadata put fails, the failure is not ignored: it
  reaches the router's \<^verbatim>\<open>catch\<close> and the response is status 500 with
  \<^verbatim>\<open>success: false\<close> and the failure's message. The image write is not rolled
  back: the calls made are the two puts and no delete.
\<close>

theorem metadata_put_failure_surfaces:
  assumes "method request = ''POST''" and "get_param request ''action'' = Some ''save-enhanced''"
    and "json request = Inr (JObj kvs)"
    and "map_of kvs ''image'' = Some (JStr s)" and "match_data_url s = Some payload"
    and "atob e payload = Inr bin"
    and "map_of kvs ''metadata'' = Some m" and "truthy m"
    and "put e (''enhanced/enhanced_'' @ decimal (Date_now e 0) @ ''.jpg'')
           (Bytes (map of_char bin))
           \<lparr>access = ''public'', contentType = Some ''image/jpeg'', addRandomSuffix = None\<rparr>
         = Inr b"
    and "put e (''metadata/meta_'' @ decimal (Date_now e 1) @ ''.json'')
           (JsonText (JObj (assign (assign (spread m) ''imageUrl'' (JStr (url b)))
                              ''timestamp'' (JStr (toISOString e (Date_now e 2))))))
           \<lparr>access = ''public'', contentType = Some ''application/json'',
            addRandomSuffix = None\<rparr>
         = Inl err"
  shows "handler e request =
           (\<lparr>status = 500, headers = corsHeaders,
             resp_body = Some (JObj ([(''success'', JBool False),
                                      (''error'', JStr (if message err \<noteq> [] then message err
                                                        else ''Internal server error''))]
                                @ field ''stack''
                                    (if NODE_ENV e = Some ''development'' then opt_str (stack err)
                                     else Undefined)))\<rparr>,
            [Put (''enhanced/enhanced_'' @ decimal (Date_now e 0) @ ''.jpg'')
               (Bytes (map of_char bin))
               \<lparr>access = ''public'', contentType = Some ''image/jpeg'', addRandomSuffix = None\<rparr>,
             Put (''metadata/meta_'' @ decimal (Date_now e 1) @ ''.json'')
               (JsonText (JObj (assign (assign (spread m) ''imageUrl'' (JStr (url b)))
                                  ''timestamp'' (JStr (toISOString e (Date_now e 2))))))
               \<lparr>access = ''public'', contentType = Some ''application/json'',
                addRandomSuffix = None\<rparr>])
       \<and> \<not> list_ex is_del (snd (handler e request))"
  unfolding handler_save_enhanced [OF assms(1,2)] save_enhanced_decoded [OF assms(1,3-6)]
  using assms(7-10)
  by (simp add: error_response_def jsonResponse_def)

theorem metadata_put_failure_surfaces_witness:
  "handler env_metadata_put_fails
         (save_request [(''image'', JStr ''data:image/jpeg;base64,QUJD''),
                        (''metadata'', JObj [(''filter'', JStr ''warm'')])]) =
       (\<lparr>status = 500, headers = corsHeaders,
         resp_body = Some (JObj [(''success'', JBool False),
                                 (''error'', JStr ''store unavailable'')])\<rparr>,
        [Put ''enhanced/enhanced_1700000000000.jpg'' (Bytes [65, 66, 67])
           \<lparr>access = ''public'', contentType = Some ''image/jpeg'', addRandomSuffix = None\<rparr>,
         Put ''metadata/meta_1700000000001.json''
           (JsonText (JObj [(''filter'', JStr ''warm''),
                            (''imageUrl'',
                               JStr ''https://store.example/enhanced/enhanced_1700000000000.jpg''),
                            (''timestamp'', JStr ''2023-11-14T22:13:20.000Z'')]))
           \<lparr>access = ''public'', contentType = Some ''application/json'',
            addRandomSuffix = None\<rparr>])"
proof -
  let ?kvs = "[(''image'', JStr ''data:image/jpeg;base64,QUJD''),
               (''metadata'', JObj [(''filter'', JStr ''warm'')])]"
  let ?e = env_metadata_put_fails
  have i: "map_of ?kvs ''image'' = Some (JStr ''data:image/jpeg;base64,QUJD'')" by simp
  have m: "map_of ?kvs ''metadata'' = Some (JObj [(''filter'', JStr ''warm'')])" by simp
  have t: "truthy (JObj [(''filter'', JStr ''warm'')])" by simp
  have p1: "put ?e (''enhanced/enhanced_'' @ decimal (Date_now ?e 0) @ ''.jpg'')
           (Bytes (map of_char ''ABC''))
           \<lparr>access = ''public'', contentType = Some ''image/jpeg'', addRandomSuffix = None\<rparr>
         = Inr (example_blob ''enhanced/enhanced_1700000000000.jpg'')"
    by (simp add: env_metadata_put_fails_fields decimal_example)
  have p2: "put ?e (''metadata/meta_'' @ decimal (Date_now ?e 1) @ ''.json'')
           (JsonText (JObj (assign (assign (spread (JObj [(''filter'', JStr ''warm'')])) ''imageUrl''
                                      (JStr (url (example_blob ''enhanced/enhanced_1700000000000.jpg''))))
                              ''timestamp'' (JStr (toISOString ?e (Date_now ?e 2))))))
           \<lparr>access = ''public'', contentType = Some ''application/json'',
            addRandomSuffix = None\<rparr>
         = Inl (Exn ''store unavailable'' None)"
    by (simp add: env_metadata_put_fails_fields decimal_example1)
  from metadata_put_failure_surfaces
         [OF example_save_hyps i match_example env_metadata_put_fails_fields(3) m t p1 p2]
  show ?thesis
    by (simp add: env_metadata_put_fails_fields decimal_example decimal_example1 example_blob_def)
qed

section \<open>Listing the filters\<close>

lemma cc_item_fetch_fails: "fetch_json e (url b) = Inl err \<Longrightarrow> cc_item e b = None"
  by (simp add: cc_item_def)

lemma cc_item_null: "fetch_json e (url b) = Inr JNull \<Longrightarrow> cc_item e b = None"
  by (simp add: cc_item_def)

lemma cc_item_resolves:
  "fetch_json e (url b) = Inr data \<Longrightarrow> data \<noteq> JNull \<Longrightarrow> cc_item e b \<noteq> None"
  by (cases data) (simp_all add: cc_item_def)

lemma cc_item_object:
  assumes "fetch_json e (url b) = Inr (JObj kvs)"
    and "map_of kvs ''name'' = Some n" "truthy n"
    and "map_of kvs ''values'' = Some v" "truthy v"
  shows "cc_item e b =
           Some (JObj [(''name'', n), (''url'', JStr (url b)),
                       (''uploadedAt'', JStr (uploadedAt b)),
                       (''size'', JNum (of_nat (size_b b))), (''values'', v)])"
  using assms by (simp add: cc_item_def)

lemma kept_items:
  "map the (filter (\<lambda>f. f \<noteq> None) (map g xs)) = map (\<lambda>x. the (g x)) (filter (\<lambda>x. g x \<noteq> None) xs)"
  by (induction xs) simp_all

lemma kept_count:
  "length (filter (\<lambda>f. f \<noteq> None) (map g xs)) = length (filter (\<lambda>x. g x \<noteq> None) xs)"
  by (induction xs) simp_all

lemma cc_get_listed:
  assumes "list_blobs e ''cc-filters/'' (Some 100) = Inr blobs"
  shows "cc_get e =
     (Inr (jsonResponse
        (JObj [(''success'', JBool True),
               (''filters'',
                  JArr (map (\<lambda>b. the (cc_item e b)) (filter (\<lambda>b. cc_item e b \<noteq> None) blobs))),
               (''count'',
                  JNum (of_nat (length (filter (\<lambda>b. cc_item e b \<noteq> None) blobs))))])
        200 corsHeaders),
      List ''cc-filters/'' (Some 100) # map (\<lambda>b. Fetch (url b)) blobs)"
  unfolding cc_get_def assms Let_def kept_items kept_count
  by (simp only: sum.case)

lemma handler_cc_get:
  assumes "method request = ''GET''" and "get_param request ''action'' = Some ''cc''"
  shows "handler e request =
           (case cc_get e of
              (Inr r, cs) \<Rightarrow> (r, cs)
            | (Inl err, cs) \<Rightarrow> (error_response e err, cs))"
proof -
  from assms(2) have "param_or request ''action'' ''unknown'' = ''cc''"
    by (simp add: param_or_def)
  with assms(1) show ?thesis
    by (simp add: handler_non_options try_block_cc_get)
qed

text \<open>
  Claim C5. For \<^verbatim>\<open>GET ?action=cc\<close>, once the listing has succeeded, a listed
  object whose fetch or JSON parse fails is dropped and the request does not fail: the
  response is status 200 with \<^verbatim>\<open>success: true\<close>, \<^verbatim>\<open>filters\<close> holds,
  in the order of the listing, the items of exactly the objects that resolved, and
  \<^verbatim>\<open>count\<close> is their number. An object whose fetch fails resolves to nothing; an
  object whose document is not \<^verbatim>\<open>null\<close> resolves; a document with truthy
  \<^verbatim>\<open>name\<close> and \<^verbatim>\<open>values\<close> resolves to
  \<^verbatim>\<open>{name, url, uploadedAt, size, values}\<close>.
\<close>

theorem cc_get_drops_failed_items:
  assumes "method request = ''GET''" and "get_param request ''action'' = Some ''cc''"
    and "list_blobs e ''cc-filters/'' (Some 100) = Inr blobs"
  shows "handler e request =
           (\<lparr>status = 200, headers = corsHeaders,
             resp_body = Some (JObj
               [(''success'', JBool True),
                (''filters'',
                   JArr (map (\<lambda>b. the (cc_item e b)) (filter (\<lambda>b. cc_item e b \<noteq> None) blobs))),
                (''count'',
                   JNum (of_nat (length (filter (\<lambda>b. cc_item e b \<noteq> None) blobs))))])\<rparr>,
            List ''cc-filters/'' (Some 100) # map (\<lambda>b. Fetch (url b)) blobs)
       \<and> (\<forall>b err. fetch_json e (url b) = Inl err \<longrightarrow> cc_item e b = None)
       \<and> (\<forall>b data. fetch_json e (url b) = Inr data \<and> data \<noteq> JNull \<longrightarrow> cc_item e b \<noteq> None)
       \<and> (\<forall>b kvs n v.
             fetch_json e (url b) = Inr (JObj kvs)
             \<and> map_of kvs ''name'' = Some n \<and> truthy n
             \<and> map_of kvs ''values'' = Some v \<and> truthy v \<longrightarrow>
             cc_item e b =
               Some (JObj [(''name'', n), (''url'', JStr (url b)),
                           (''uploadedAt'', JStr (uploadedAt b)),
                           (''size'', JNum (of_nat (size_b b))), (''values'', v)]))"
proof (intro conjI allI impI)
  show "handler e request =
           (\<lparr>status = 200, headers = corsHeaders,
             resp_body = Some (JObj
               [(''success'', JBool True),
                (''filters'',
                   JArr (map (\<lambda>b. the (cc_item e b)) (filter (\<lambda>b. cc_item e b \<noteq> None) blobs))),
                (''count'',
                   JNum (of_nat (length (filter (\<lambda>b. cc_item e b \<noteq> None) blobs))))])\<rparr>,
            List ''cc-filters/'' (Some 100) # map (\<lambda>b. Fetch (url b)) blobs)"
    unfolding handler_cc_get [OF assms(1,2)] cc_get_listed [OF assms(3)]
    by (simp only: prod.case sum.case jsonResponse_def)
next
  fix b :: listed and err assume "fetch_json e (url b) = Inl err"
  then show "cc_item e b = None" by (rule cc_item_fetch_fails)
next
  fix b :: listed and data assume "fetch_json e (url b) = Inr data \<and> data \<noteq> JNull"
  then show "cc_item e b \<noteq> None" using cc_item_resolves [of e b data] by simp
next
  fix b :: listed and kvs n v
  assume "fetch_json e (url b) = Inr (JObj kvs)
             \<and> map_of kvs ''name'' = Some n \<and> truthy n
             \<and> map_of kvs ''values'' = Some v \<and> truthy v"
  then show "cc_item e b =
               Some (JObj [(''name'', n), (''url'', JStr (url b)),
                           (''uploadedAt'', JStr (uploadedAt b)),
                           (''size'', JNum (of_nat (size_b b))), (''values'', v)])"
    by (intro cc_item_object) blast+
qed

lemma example_listing:
  "list_blobs example_env ''cc-filters/'' (Some 100) =
     Inr [example_listed ''cc-filters/Warm_1.json'', example_listed ''cc-filters/Cold_2.json'']"
  by (simp add: example_env_def)

lemma example_items:
  "cc_item example_env (example_listed ''cc-filters/Warm_1.json'') =
     Some (JObj [(''name'', JStr ''Warm''),
                 (''url'', JStr ''https://store.example/cc-filters/Warm_1.json''),
                 (''uploadedAt'', JStr ''2023-11-14T22:13:20.000Z''),
                 (''size'', JNum 40),
                 (''values'', JObj [(''a'', JNum 1)])])"
  "cc_item example_env (example_listed ''cc-filters/Cold_2.json'') = None"
  by (simp_all add: cc_item_def example_env_def example_listed_def)

theorem cc_get_drops_failed_items_witness:
  "fetch_json example_env (url (example_listed ''cc-filters/Cold_2.json''))
     = Inl (Exn ''fetch failed'' None)
   \<and> handler example_env (example_request ''GET'' ''cc'' (Inr JNull)) =
     (\<lparr>status = 200, headers = corsHeaders,
       resp_body = Some (JObj
         [(''success'', JBool True),
          (''filters'',
             JArr [JObj [(''name'', JStr ''Warm''),
                         (''url'', JStr ''https://store.example/cc-filters/Warm_1.json''),
                         (''uploadedAt'', JStr ''2023-11-14T22:13:20.000Z''),
                         (''size'', JNum 40),
                         (''values'', JObj [(''a'', JNum 1)])]]),
          (''count'', JNum 1)])\<rparr>,
      [List ''cc-filters/'' (Some 100),
       Fetch ''https://store.example/cc-filters/Warm_1.json'',
       Fetch ''https://store.example/cc-filters/Cold_2.json''])"
proof -
  have m: "method (example_request ''GET'' ''cc'' (Inr JNull)) = ''GET''" by simp
  have a: "get_param (example_request ''GET'' ''cc'' (Inr JNull)) ''action'' = Some ''cc''" by simp
  have f: "fetch_json example_env (url (example_listed ''cc-filters/Cold_2.json''))
             = Inl (Exn ''fetch failed'' None)"
    by (simp add: example_env_def example_listed_def)
  from cc_get_drops_failed_items [OF m a example_listing]
  have "handler example_env (example_request ''GET'' ''cc'' (Inr JNull)) =
           (\<lparr>status = 200, headers = corsHeaders,
             resp_body = Some (JObj
               [(''success'', JBool True),
                (''filters'',
                   JArr (map (\<lambda>b. the (cc_item example_env b))
                           (filter (\<lambda>b. cc_item example_env b \<noteq> None)
                              [example_listed ''cc-filters/Warm_1.json'',
                               example_listed ''cc-filters/Cold_2.json'']))),
                (''count'',
                   JNum (of_nat (length (filter (\<lambda>b. cc_item example_env b \<noteq> None)
                              [example_listed ''cc-filters/Warm_1.json'',
                               example_listed ''cc-filters/Cold_2.json'']))))])\<rparr>,
            List ''cc-filters/'' (Some 100) # map (\<lambda>b. Fetch (url b))
               [example_listed ''cc-filters/Warm_1.json'',
                example_listed ''cc-filters/Cold_2.json''])"
    by (rule conjunct1)
  then have "handler example_env (example_request ''GET'' ''cc'' (Inr JNull)) =
     (\<lparr>status = 200, headers = corsHeaders,
       resp_body = Some (JObj
         [(''success'', JBool True),
          (''filters'',
             JArr [JObj [(''name'', JStr ''Warm''),
                         (''url'', JStr ''https://store.example/cc-filters/Warm_1.json''),
                         (''uploadedAt'', JStr ''2023-11-14T22:13:20.000Z''),
                         (''size'', JNum 40),
                         (''values'', JObj [(''a'', JNum 1)])]]),
          (''count'', JNum 1)])\<rparr>,
      [List ''cc-filters/'' (Some 100),
       Fetch ''https://store.example/cc-filters/Warm_1.json'',
       Fetch ''https://store.example/cc-filters/Cold_2.json''])"
    by (simp add: example_items) (simp add: example_listed_def)
  with f show ?thesis by (rule conjI)
qed

section \<open>The catch block\<close>

lemma handler_raises:
  assumes "method request \<noteq> ''OPTIONS''"
    and "try_block e request (param_or request ''action'' ''unknown'') = (Inl err, cs)"
  shows "handler e request = (error_response e err, cs)"
  using assms by (simp add: handler_non_options)

lemma error_response_shape:
  "error_response e err =
     \<lparr>status = 500, headers = corsHeaders,
      resp_body = Some (JObj ([(''success'', JBool False),
                               (''error'', JStr (if message err \<noteq> [] then message err
                                                 else ''Internal server error''))]
                         @ (if NODE_ENV e = Some ''development''
                            then (case stack err of
                                    None \<Rightarrow> []
                                  | Some st \<Rightarrow> [(''stack'', JStr st)])
                            else [])))\<rparr>"
  by (simp add: error_response_def jsonResponse_def opt_str_def split: option.splits)

lemma cc_post_parse_failure: "json request = Inl err \<Longrightarrow> cc_post e request = (Inl err, [])"
  by (simp add: cc_post_def)

lemma save_enhanced_parse_failure:
  "method request = ''POST'' \<Longrightarrow> json request = Inl err \<Longrightarrow>
   route_save_enhanced e request = (Inl err, [])"
  by (simp add: route_save_enhanced_def)

lemma cc_get_list_failure:
  "list_blobs e ''cc-filters/'' (Some 100) = Inl err \<Longrightarrow>
   cc_get e = (Inl err, [List ''cc-filters/'' (Some 100)])"
  by (simp add: cc_get_def)

lemma delete_upload_failure:
  "method request = ''DELETE'' \<Longrightarrow> param_or request ''url'' [] \<noteq> [] \<Longrightarrow>
   del e (param_or request ''url'' []) = Inl err \<Longrightarrow>
   try_block e request ''delete-upload'' = (Inl err, [Del (param_or request ''url'' [])])"
  by (simp add: try_block_def after_cc_def route_delete_upload_def delete_by_url_def Let_def)

text \<open>
  Claim C8 says that the stack is part of the response if and only if the build is not a
  production build. With \<^verbatim>\<open>NODE_ENV=test\<close> a body that does not parse is
  answered with status 500 and the message, and without the stack the exception carries.
\<close>

theorem stack_in_test_mode_counterexample:
  "NODE_ENV env_test_mode = Some ''test''
   \<and> stack parse_error \<noteq> None
   \<and> handler env_test_mode (example_request ''POST'' ''cc'' (Inl parse_error)) =
       (\<lparr>status = 500, headers = corsHeaders,
         resp_body = Some (JObj [(''success'', JBool False),
                                 (''error'', JStr ''Unexpected end of JSON input'')])\<rparr>, [])"
proof -
  let ?r = "example_request ''POST'' ''cc'' (Inl parse_error)"
  have "try_block env_test_mode ?r (param_or ?r ''action'' ''unknown'') = (Inl parse_error, [])"
    by (simp add: try_block_cc_post cc_post_parse_failure)
  from handler_raises [OF _ this]
  have "handler env_test_mode ?r = (error_response env_test_mode parse_error, [])"
    by simp
  then show ?thesis
    by (simp add: error_response_shape env_test_mode_def parse_error_def)
qed

text \<open>
  Claim C8, amended. An exception that leaves a route (the rejected
  \<^verbatim>\<open>request.json()\<close> of \<^verbatim>\<open>cc\<close> and \<^verbatim>\<open>save-enhanced\<close>, a
  rejected \<^verbatim>\<open>list\<close> or \<^verbatim>\<open>del\<close>, and any other) is caught by the
  router and answered with status 500 and \<^verbatim>\<open>{success:false, error}\<close>, where
  \<^verbatim>\<open>error\<close> is the exception's message, or \<^verbatim>\<open>Internal server error\<close>
  when the message is empty; the field \<^verbatim>\<open>stack\<close> is present if and only if
  \<^verbatim>\<open>NODE_ENV\<close> is exactly \<^verbatim>\<open>development\<close> and the exception has a
  stack. The calls made before the exception stay made.
\<close>

theorem exceptions_become_500:
  assumes "method request \<noteq> ''OPTIONS''"
  shows "(\<forall>err cs.
            try_block e request (param_or request ''action'' ''unknown'') = (Inl err, cs) \<longrightarrow>
            handler e request =
              (\<lparr>status = 500, headers = corsHeaders,
                resp_body = Some (JObj ([(''success'', JBool False),
                                         (''error'', JStr (if message err \<noteq> [] then message err
                                                           else ''Internal server error''))]
                                   @ (if NODE_ENV e = Some ''development''
                                      then (case stack err of
                                              None \<Rightarrow> []
                                            | Some st \<Rightarrow> [(''stack'', JStr st)])
                                      else [])))\<rparr>, cs))
       \<and> (\<forall>err.
            method request = ''POST'' \<and> json request = Inl err
            \<and> (param_or request ''action'' ''unknown'' = ''cc''
                \<or> param_or request ''action'' ''unknown'' = ''save-enhanced'') \<longrightarrow>
            try_block e request (param_or request ''action'' ''unknown'') = (Inl err, []))
       \<and> (\<forall>err.
            method request = ''GET'' \<and> param_or request ''action'' ''unknown'' = ''cc''
            \<and> list_blobs e ''cc-filters/'' (Some 100) = Inl err \<longrightarrow>
            try_block e request (param_or request ''action'' ''unknown'')
              = (Inl err, [List ''cc-filters/'' (Some 100)]))
       \<and> (\<forall>err.
            method request = ''DELETE''
            \<and> param_or request ''action'' ''unknown'' = ''delete-upload''
            \<and> param_or request ''url'' [] \<noteq> []
            \<and> del e (param_or request ''url'' []) = Inl err \<longrightarrow>
            try_block e request (param_or request ''action'' ''unknown'')
              = (Inl err, [Del (param_or request ''url'' [])]))"
proof (intro conjI allI impI)
  fix err cs
  assume "try_block e request (param_or request ''action'' ''unknown'') = (Inl err, cs)"
  from handler_raises [OF assms this]
  show "handler e request =
              (\<lparr>status = 500, headers = corsHeaders,
                resp_body = Some (JObj ([(''success'', JBool False),
                                         (''error'', JStr (if message err \<noteq> [] then message err
                                                           else ''Internal server error''))]
                                   @ (if NODE_ENV e = Some ''development''
                                      then (case stack err of
                                              None \<Rightarrow> []
                                            | Some st \<Rightarrow> [(''stack'', JStr st)])
                                      else [])))\<rparr>, cs)"
    by (simp only: error_response_shape)
next
  fix err
  assume h: "method request = ''POST'' \<and> json request = Inl err
            \<and> (param_or request ''action'' ''unknown'' = ''cc''
                \<or> param_or request ''action'' ''unknown'' = ''save-enhanced'')"
  then consider "param_or request ''action'' ''unknown'' = ''cc''"
    | "param_or request ''action'' ''unknown'' = ''save-enhanced''" by blast
  then show "try_block e request (param_or request ''action'' ''unknown'') = (Inl err, [])"
  proof cases
    case 1
    with h show ?thesis by (simp add: try_block_cc_post cc_post_parse_failure)
  next
    case 2
    with h show ?thesis by (simp add: try_block_save_enhanced save_enhanced_parse_failure)
  qed
next
  fix err
  assume "method request = ''GET'' \<and> param_or request ''action'' ''unknown'' = ''cc''
            \<and> list_blobs e ''cc-filters/'' (Some 100) = Inl err"
  then show "try_block e request (param_or request ''action'' ''unknown'')
              = (Inl err, [List ''cc-filters/'' (Some 100)])"
    by (simp add: try_block_cc_get cc_get_list_failure)
next
  fix err
  assume "method request = ''DELETE''
            \<and> param_or request ''action'' ''unknown'' = ''delete-upload''
            \<and> param_or request ''url'' [] \<noteq> []
            \<and> del e (param_or request ''url'' []) = Inl err"
  then show "try_block e request (param_or request ''action'' ''unknown'')
              = (Inl err, [Del (param_or request ''url'' [])])"
    by (simp add: delete_upload_failure)
qed

theorem exceptions_become_500_witness:
  "handler env_development (example_request ''POST'' ''cc'' (Inl parse_error)) =
     (\<lparr>status = 500, headers = corsHeaders,
       resp_body = Some (JObj [(''success'', JBool False),
                               (''error'', JStr ''Unexpected end of JSON input''),
                               (''stack'',
                                  JStr ''SyntaxError: Unexpected end of JSON input at JSON.parse'')])\<rparr>,
      [])
   \<and> handler example_env (example_request ''POST'' ''cc'' (Inl parse_error)) =
     (\<lparr>status = 500, headers = corsHeaders,
       resp_body = Some (JObj [(''success'', JBool False),
                               (''error'', JStr ''Unexpected end of JSON input'')])\<rparr>, [])
   \<and> handler example_env (example_request ''POST'' ''save-enhanced'' (Inl (Exn [] None))) =
     (\<lparr>status = 500, headers = corsHeaders,
       resp_body = Some (JObj [(''success'', JBool False),
                               (''error'', JStr ''Internal server error'')])\<rparr>, [])"
proof -
  have w: "handler e (example_request ''POST'' a (Inl err)) =
     (\<lparr>status = 500, headers = corsHeaders,
       resp_body = Some (JObj ([(''success'', JBool False),
                                (''error'', JStr (if message err \<noteq> [] then message err
                                                  else ''Internal server error''))]
                          @ (if NODE_ENV e = Some ''development''
                             then (case stack err of
                                     None \<Rightarrow> []
                                   | Some st \<Rightarrow> [(''stack'', JStr st)])
                             else [])))\<rparr>, [])"
    if "a = ''cc'' \<or> a = ''save-enhanced''" for e a err
  proof -
    let ?r = "example_request ''POST'' a (Inl err)"
    have m: "method ?r \<noteq> ''OPTIONS''" by simp
    from that have a: "param_or ?r ''action'' ''unknown'' = a" by auto
    note t = exceptions_become_500 [OF m, of e]
    from t that have "try_block e ?r (param_or ?r ''action'' ''unknown'') = (Inl err, [])"
      unfolding a by simp
    with t show ?thesis by blast
  qed
  show ?thesis
    by (simp add: w env_development_def example_env_fields parse_error_def)
qed

end
